theory Spec2Isabelle
  imports Main "HOL-Library.Monad_Syntax" "HOL-Library.Log_Nat"
begin

section \<open>Objects and enumerations used by the widgets\<close>

text \<open>
  Python objects are compared by identity in \<^verbatim>\<open>widget.py\<close> (\<^verbatim>\<open>self._model != model\<close> on
  objects without an equality of their own), so an object is represented by its identity.
\<close>

type_synonym obj = nat

text \<open>
  \<^verbatim>\<open>JobState\<close>, \<^verbatim>\<open>JobKind\<close>, \<^verbatim>\<open>ConnectionState\<close> and \<^verbatim>\<open>Workspace\<close> are enumerations
  declared in sibling modules. The members that \<^verbatim>\<open>widget.py\<close> names are constructors;
  any further member of \<^verbatim>\<open>JobState\<close> or \<^verbatim>\<open>JobKind\<close> is carried by its name.
\<close>

datatype JobState = queued | finished | other_state string

datatype JobKind = diffusion | other_kind string

datatype ConnectionState =
  disconnected | connecting | connected | error | other_connection_state string

datatype Workspace = generation | upscaling | live

datatype Bounds = Bounds int int int int

record Timestamp =
  hour :: nat
  minute :: nat

type_synonym Image = string

record Job =
  job_id :: string
  job_kind :: JobKind
  job_state :: JobState
  job_prompt :: string
  job_bounds :: Bounds
  job_timestamp :: Timestamp
  job_results :: "Image list"

section \<open>Signals, subscriptions and bindings\<close>

text \<open>
  A subscription connects a signal of a sender object to a slot of a receiver object.
  A child control of a widget is addressed through the widget that owns it:
  \<^verbatim>\<open>self.style_select.value_changed\<close> of a widget \<open>w\<close> is the signal
  \<open>''style_select.value_changed''\<close> of \<open>w\<close>. \<^verbatim>\<open>connect\<close> returns a handle
  (\<^verbatim>\<open>QMetaObject.Connection\<close>); the table keeps the active subscriptions in the order
  they were made. \<open>next_obj\<close> numbers the widgets created at run time and
  \<open>delete_later\<close> lists the widgets handed to \<^verbatim>\<open>deleteLater()\<close>, which Qt destroys
  only when control returns to the event loop.
\<close>

record Subscription =
  sub_sender :: obj
  sub_signal :: string
  sub_receiver :: obj
  sub_slot :: string

record QtState =
  active :: "(nat \<times> Subscription) list"
  next_handle :: nat
  next_obj :: obj
  delete_later :: "obj list"

definition connect :: "Subscription \<Rightarrow> QtState \<Rightarrow> nat \<times> QtState" where
  "connect s q =
     (next_handle q,
      q\<lparr>active := active q @ [(next_handle q, s)], next_handle := Suc (next_handle q)\<rparr>)"

definition is_active :: "nat \<Rightarrow> QtState \<Rightarrow> bool" where
  "is_active h q \<longleftrightarrow> h \<in> fst ` set (active q)"

text \<open>
  \<^verbatim>\<open>QObject.disconnect(connection)\<close>: removes the subscription; the result tells whether
  the handle was still active.
\<close>

definition QObject_disconnect :: "nat \<Rightarrow> QtState \<Rightarrow> bool \<times> QtState" where
  "QObject_disconnect h q =
     (is_active h q, q\<lparr>active := filter (\<lambda>e. fst e \<noteq> h) (active q)\<rparr>)"

text \<open>
  \<^verbatim>\<open>signal.disconnect(slot)\<close>: removes the first subscription of the slot to the signal and
  raises (\<open>None\<close>) when the slot is not connected to it.
\<close>

fun remove_first :: "Subscription \<Rightarrow> (nat \<times> Subscription) list \<Rightarrow> (nat \<times> Subscription) list option" where
  "remove_first s [] = None"
| "remove_first s (e # es) =
     (if snd e = s then Some es else map_option ((#) e) (remove_first s es))"

definition disconnect_slot :: "Subscription \<Rightarrow> QtState \<Rightarrow> QtState option" where
  "disconnect_slot s q = map_option (\<lambda>es. q\<lparr>active := es\<rparr>) (remove_first s (active q))"

text \<open>
  An element of a widget's binding list (\<^verbatim>\<open>list[QMetaObject.Connection | Binding]\<close>): a raw
  connection handle, or a \<^verbatim>\<open>Binding\<close> with the handle of its subscription to the model
  property and, for a two-way binding, the handle of its subscription to the widget's
  change signal.
\<close>

datatype BindingOrConnection = Connection nat | Binding nat "nat option"

datatype Bind = one_way | two_way

fun handles_of :: "BindingOrConnection \<Rightarrow> nat list" where
  "handles_of (Connection h) = [h]"
| "handles_of (Binding h None) = [h]"
| "handles_of (Binding h (Some h')) = [h, h']"

text \<open>
  A call that subscribes is described by the subscriptions it makes: a plain
  \<^verbatim>\<open>signal.connect(slot)\<close>, a one-way binding, or a two-way binding with its subscription
  to the model property first and its subscription to the widget's change signal second.
\<close>

datatype Subscribe = Connect Subscription | OneWay Subscription | TwoWay Subscription Subscription

text \<open>
  Modelled from the spec: \<^verbatim>\<open>bind\<close>, \<^verbatim>\<open>bind_widget\<close> and \<^verbatim>\<open>bind_combo\<close> of
  \<^verbatim>\<open>properties.py\<close>, which is not among the sources. Spec 4.2: a binding subscribes to
  the source property's change notifier and, when two-way, to the target's change signal.
  \<open>bind_property src prop tgt tprop\<close> (the source's \<^verbatim>\<open>bind\<close>) links property \<open>prop\<close> of
  \<open>src\<close> to property \<open>tprop\<close> of \<open>tgt\<close>; \<open>bind_widget src prop tgt signal setter\<close>
  links it to a signal and a setter.
\<close>

definition bind_property :: "obj \<Rightarrow> string \<Rightarrow> obj \<Rightarrow> string \<Rightarrow> Bind \<Rightarrow> Subscribe" where
  "bind_property src prop tgt tprop direction =
     (case direction of
        one_way \<Rightarrow>
          OneWay \<lparr> sub_sender = src, sub_signal = prop @ ''_changed'',
                   sub_receiver = tgt, sub_slot = tprop \<rparr>
      | two_way \<Rightarrow>
          TwoWay \<lparr> sub_sender = src, sub_signal = prop @ ''_changed'',
                   sub_receiver = tgt, sub_slot = tprop \<rparr>
                 \<lparr> sub_sender = tgt, sub_signal = tprop @ ''_changed'',
                   sub_receiver = src, sub_slot = prop \<rparr>)"

definition bind_widget :: "obj \<Rightarrow> string \<Rightarrow> obj \<Rightarrow> string \<Rightarrow> string \<Rightarrow> Subscribe" where
  "bind_widget src prop tgt signal setter =
     TwoWay \<lparr> sub_sender = src, sub_signal = prop @ ''_changed'',
              sub_receiver = tgt, sub_slot = setter \<rparr>
            \<lparr> sub_sender = tgt, sub_signal = signal,
              sub_receiver = src, sub_slot = prop \<rparr>"

definition bind_combo :: "obj \<Rightarrow> string \<Rightarrow> obj \<Rightarrow> string \<Rightarrow> Subscribe" where
  "bind_combo src prop tgt combo =
     bind_widget src prop tgt (combo @ ''.currentIndexChanged'') (combo @ ''.setCurrentIndex'')"

text \<open>A plain \<^verbatim>\<open>signal.connect(slot)\<close>.\<close>

definition connection :: "obj \<Rightarrow> string \<Rightarrow> obj \<Rightarrow> string \<Rightarrow> Subscribe" where
  "connection sender signal receiver slot =
     Connect \<lparr> sub_sender = sender, sub_signal = signal,
               sub_receiver = receiver, sub_slot = slot \<rparr>"

text \<open>Carrying a call out on the table gives the handle or the binding it returns.\<close>

fun establish :: "Subscribe \<Rightarrow> QtState \<Rightarrow> BindingOrConnection \<times> QtState" where
  "establish (Connect s) q = (let (h, q1) = connect s q in (Connection h, q1))"
| "establish (OneWay s) q = (let (h, q1) = connect s q in (Binding h None, q1))"
| "establish (TwoWay s s') q =
     (let (h, q1) = connect s q; (h', q2) = connect s' q1 in (Binding h (Some h'), q2))"

text \<open>
  A list display \<^verbatim>\<open>[bind(...), ..., x.connect(...)]\<close> evaluates its elements from left to
  right, each on the table the previous one left.
\<close>

fun in_order :: "Subscribe list \<Rightarrow> QtState \<Rightarrow> BindingOrConnection list \<times> QtState" where
  "in_order [] q = ([], q)"
| "in_order (d # ds) q =
     (let (b, q1) = establish d q; (bs, q2) = in_order ds q1 in (b # bs, q2))"

text \<open>
  Modelled from the spec: \<^verbatim>\<open>Binding.disconnect\<close> and \<^verbatim>\<open>Binding.disconnect_all\<close> of
  \<^verbatim>\<open>properties.py\<close>, which is not among the sources. Spec 4.2: \<^verbatim>\<open>disconnect()\<close> removes
  both subscriptions and may be called twice. Spec 4.3: \<^verbatim>\<open>disconnect_all\<close> calls disconnect
  on every element, a full binding or a raw subscription handle; a failing element (a
  handle that was already released) does not stop the rest, and the caller learns that a
  failure occurred. The result pairs the table with the positions that failed.
\<close>

definition Binding_disconnect :: "nat \<Rightarrow> nat option \<Rightarrow> QtState \<Rightarrow> QtState" where
  "Binding_disconnect h w q =
     (let q1 = snd (QObject_disconnect h q)
      in case w of None \<Rightarrow> q1 | Some h' \<Rightarrow> snd (QObject_disconnect h' q1))"

fun disconnect_element :: "BindingOrConnection \<Rightarrow> QtState \<Rightarrow> bool \<times> QtState" where
  "disconnect_element (Binding h w) q = (True, Binding_disconnect h w q)"
| "disconnect_element (Connection h) q = QObject_disconnect h q"

fun disconnect_from :: "nat \<Rightarrow> BindingOrConnection list \<Rightarrow> QtState \<Rightarrow> nat list \<times> QtState" where
  "disconnect_from i [] q = ([], q)"
| "disconnect_from i (b # bs) q =
     (let (ok, q1) = disconnect_element b q;
          (failed, q2) = disconnect_from (Suc i) bs q1
      in (if ok then failed else i # failed, q2))"

definition disconnect_all :: "BindingOrConnection list \<Rightarrow> QtState \<Rightarrow> nat list \<times> QtState" where
  "disconnect_all bindings q = disconnect_from 0 bindings q"

section \<open>The model objects the widgets attach to\<close>

text \<open>
  Of a \<^verbatim>\<open>JobQueue\<close> and a \<^verbatim>\<open>Model\<close> (declared in sibling modules) the widgets use the
  identity, the jobs of the queue, and the control layers of \<^verbatim>\<open>model.control\<close>, each an
  object of its own. Other parts of a model are addressed through the model:
  \<^verbatim>\<open>model.upscale.factor_changed\<close> is the signal \<open>''upscale.factor_changed''\<close> of the model.
\<close>

record JobQueue =
  jq_self :: obj
  jq_jobs :: "Job list"

record Model =
  m_self :: obj
  m_workspace :: Workspace
  m_jobs :: JobQueue
  m_control :: "obj list"

section \<open>HistoryWidget: the list of results\<close>

text \<open>
  A \<^verbatim>\<open>QListWidgetItem\<close> as \<^verbatim>\<open>HistoryWidget.add\<close> builds it: the text (\<^verbatim>\<open>None\<close> for an image
  item), the icon, whether the flags were cleared, the data stored under \<^verbatim>\<open>UserRole\<close>,
  \<^verbatim>\<open>UserRole + 1\<close> and \<^verbatim>\<open>ToolTipRole\<close>, the size hint and the alignment.
\<close>

record QListWidgetItem =
  item_text :: "string option"
  item_icon :: "Image option"
  item_no_flags :: bool
  item_user_role :: string
  item_user_role1 :: "nat option"
  item_tooltip :: string
  item_size_hint :: "(int \<times> int) option"
  item_align_left :: bool

record QScrollBar =
  sb_visible :: bool
  sb_value :: int
  sb_maximum :: int

record HistoryWidget =
  hw_self :: obj
  hw_jobs :: obj
  hw_connections :: "BindingOrConnection list"
  hw_last_prompt :: "string option"
  hw_last_bounds :: "Bounds option"
  hw_items :: "QListWidgetItem list"
  hw_line_spacing :: int
  hw_scrollbar :: QScrollBar

definition digit_char :: "nat \<Rightarrow> char" where
  "digit_char d = char_of (48 + d)"

text \<open>\<^verbatim>\<open>f"{job.timestamp:%H:%M}"\<close>: two digits each.\<close>

definition format_HM :: "Timestamp \<Rightarrow> string" where
  "format_HM t =
     [digit_char (hour t div 10), digit_char (hour t mod 10), CHR '':'',
      digit_char (minute t div 10), digit_char (minute t mod 10)]"

definition header_item :: "HistoryWidget \<Rightarrow> Job \<Rightarrow> QListWidgetItem" where
  "header_item w job =
     (let prompt = (if job_prompt job \<noteq> [] then job_prompt job else ''<no prompt>'')
      in \<lparr> item_text = Some (format_HM (job_timestamp job) @ '' - '' @ prompt),
           item_icon = None,
           item_no_flags = True,
           item_user_role = job_id job,
           item_user_role1 = None,
           item_tooltip = job_prompt job,
           item_size_hint = Some (800, hw_line_spacing w + 4),
           item_align_left = True \<rparr>)"

definition image_item :: "Job \<Rightarrow> nat \<Rightarrow> Image \<Rightarrow> QListWidgetItem" where
  "image_item job i img =
     \<lparr> item_text = None,
       item_icon = Some img,
       item_no_flags = False,
       item_user_role = job_id job,
       item_user_role1 = Some i,
       item_tooltip = job_prompt job
         @ [CHR 0x0A] @ ''Click to toggle preview, double-click to apply.'',
       item_size_hint = None,
       item_align_left = False \<rparr>"

definition scrollToBottom :: "HistoryWidget \<Rightarrow> HistoryWidget" where
  "scrollToBottom w =
     w\<lparr>hw_scrollbar := (hw_scrollbar w)\<lparr>sb_value := sb_maximum (hw_scrollbar w)\<rparr>\<rparr>"

text \<open>
  \<^verbatim>\<open>HistoryWidget.add\<close>. The first test returns at once for a job that is not a finished
  diffusion job; a new header is added when the prompt or the bounds differ from the last
  ones; then one item per result; then the view scrolls when it was at the bottom.
\<close>

definition add :: "Job \<Rightarrow> HistoryWidget \<Rightarrow> HistoryWidget" where
  "add job w =
     (if job_state job \<noteq> finished \<or> job_kind job \<noteq> diffusion then w
      else
        let w1 =
              (if hw_last_prompt w \<noteq> Some (job_prompt job)
                  \<or> hw_last_bounds w \<noteq> Some (job_bounds job)
               then w\<lparr>hw_last_prompt := Some (job_prompt job),
                      hw_last_bounds := Some (job_bounds job),
                      hw_items := hw_items w @ [header_item w job]\<rparr>
               else w);
            w2 = w1\<lparr>hw_items := hw_items w1
                   @ map (\<lambda>(i, img). image_item job i img) (enumerate 0 (job_results job))\<rparr>;
            scrollbar = hw_scrollbar w2
        in if sb_visible scrollbar \<and> sb_value scrollbar \<ge> sb_maximum scrollbar - 4
           then scrollToBottom w2 else w2)"

definition is_finished :: "Job \<Rightarrow> bool" where
  "is_finished job \<longleftrightarrow> job_kind job = diffusion \<and> job_state job = finished"

text \<open>\<^verbatim>\<open>HistoryWidget.rebuild\<close>: clear the list, then add every finished job of the queue.\<close>

definition rebuild :: "Job list \<Rightarrow> HistoryWidget \<Rightarrow> HistoryWidget" where
  "rebuild jobs w = fold add (filter is_finished jobs) (w\<lparr>hw_items := []\<rparr>)"

text \<open>
  \<^verbatim>\<open>HistoryWidget.__init__\<close> creates a queue of its own (\<open>fresh\<close>, its identity) and records
  no connection.
\<close>

definition HistoryWidget_init :: "obj \<Rightarrow> obj \<Rightarrow> QtState \<Rightarrow> HistoryWidget \<times> QtState" where
  "HistoryWidget_init self fresh q =
     (\<lparr> hw_self = self, hw_jobs = fresh, hw_connections = [],
        hw_last_prompt = None, hw_last_bounds = None, hw_items = [],
        hw_line_spacing = 14,
        hw_scrollbar = \<lparr> sb_visible = False, sb_value = 0, sb_maximum = 0 \<rparr> \<rparr>,
      snd (establish (connection self ''itemClicked'' self ''handle_preview_click'') q))"

text \<open>
  \<^verbatim>\<open>HistoryWidget.jobs\<close> (setter). The three subscriptions replace the recorded ones and the
  list is rebuilt from the new queue. The selection of the list view is not part of this
  state, so the closing \<^verbatim>\<open>update_selection()\<close>, which reads and writes the selection only,
  has no counterpart here.
\<close>

definition HistoryWidget_connections :: "obj \<Rightarrow> obj \<Rightarrow> Subscribe list" where
  "HistoryWidget_connections self jobs =
     [connection jobs ''selection_changed'' self ''update_selection'',
      connection self ''itemSelectionChanged'' self ''select_item'',
      connection jobs ''job_finished'' self ''add'']"

definition HistoryWidget_set_jobs :: "JobQueue \<Rightarrow> HistoryWidget \<times> QtState \<Rightarrow> HistoryWidget \<times> QtState" where
  "HistoryWidget_set_jobs jobs = (\<lambda>(w, q).
     (let (failed, q1) = disconnect_all (hw_connections w) q;
          w1 = w\<lparr>hw_jobs := jq_self jobs\<rparr>;
          (cs, q2) = in_order (HistoryWidget_connections (hw_self w) (jq_self jobs)) q1;
          w2 = w1\<lparr>hw_connections := cs\<rparr>
      in (rebuild (jq_jobs jobs) w2, q2)))"

section \<open>QueueWidget\<close>

record QueueWidget =
  qw_self :: obj
  qw_jobs :: obj

definition count_changed_update :: "obj \<Rightarrow> obj \<Rightarrow> Subscription" where
  "count_changed_update jobs w =
     \<lparr> sub_sender = jobs, sub_signal = ''count_changed'',
       sub_receiver = w, sub_slot = ''_update'' \<rparr>"

text \<open>
  \<^verbatim>\<open>QueueWidget.__init__\<close> creates a queue of its own (\<open>fresh\<close>, its identity) and subscribes
  to it; the menu actions connect the widget's own actions to module functions and are
  not subscriptions to a queue.
\<close>

definition QueueWidget_init :: "obj \<Rightarrow> obj \<Rightarrow> QtState \<Rightarrow> QueueWidget \<times> QtState" where
  "QueueWidget_init self fresh q =
     (\<lparr> qw_self = self, qw_jobs = fresh \<rparr>, snd (connect (count_changed_update fresh self) q))"

text \<open>
  \<^verbatim>\<open>QueueWidget.jobs\<close> (setter): no guard; the subscription to the old queue is removed
  first (\<open>None\<close> when PyQt raises because it is not there), then the new one is made.
\<close>

definition QueueWidget_set_jobs :: "JobQueue \<Rightarrow> QueueWidget \<times> QtState \<Rightarrow> (QueueWidget \<times> QtState) option" where
  "QueueWidget_set_jobs jobs = (\<lambda>(w, q).
     do {
       q1 \<leftarrow> disconnect_slot (count_changed_update (qw_jobs w) (qw_self w)) q;
       let w1 = w\<lparr>qw_jobs := jq_self jobs\<rparr>;
       Some (w1, snd (connect (count_changed_update (jq_self jobs) (qw_self w1)) q1))
     })"

section \<open>ControlWidget and ControlListWidget\<close>

record ControlWidget =
  cw_self :: obj
  cw_model :: obj
  cw_control :: obj

text \<open>
  The subscriptions \<^verbatim>\<open>ControlWidget.__init__\<close> makes, in the order of the source. None of
  the handles and bindings is kept by the widget.
\<close>

definition ControlWidget_subscriptions :: "obj \<Rightarrow> obj \<Rightarrow> obj \<Rightarrow> Subscribe list" where
  "ControlWidget_subscriptions self model control =
     [bind_combo control ''mode'' self ''mode_select'',
      bind_combo control ''layer_id'' self ''layer_select'',
      connection model ''image_layers.changed'' self ''_update_layers'',
      connection control ''has_active_job_changed'' self ''lambda x: layer_select.setEnabled(not x)'',
      connection self ''generate_button.clicked'' control ''generate'',
      connection control ''has_active_job_changed'' self ''lambda x: generate_button.setEnabled(not x)'',
      connection self ''add_pose_button.clicked'' self ''_add_pose_character'',
      connection self ''strength_spin.valueChanged'' control ''lambda x: setattr(control, strength, x / 100)'',
      connection control ''strength_changed'' self ''lambda x: strength_spin.setValue(int(x * 100))'',
      bind_widget control ''end'' self ''end_spin.valueChanged'' ''end_spin.setValue'',
      connection control ''error_text_changed'' self ''_set_error'',
      connection self ''remove_button.clicked'' self ''remove'',
      connection control ''is_supported_changed'' self ''_update_visibility'',
      connection control ''can_generate_changed'' self ''_update_visibility'',
      connection control ''show_end_changed'' self ''_update_visibility'',
      connection control ''is_pose_vector_changed'' self ''_update_visibility'']"

definition ControlWidget_init :: "obj \<Rightarrow> obj \<Rightarrow> QtState \<Rightarrow> ControlWidget \<times> QtState" where
  "ControlWidget_init model control q =
     (let self = next_obj q;
          q1 = q\<lparr>next_obj := Suc self\<rparr>;
          (ignored, q2) = in_order (ControlWidget_subscriptions self model control) q1
      in (\<lparr> cw_self = self, cw_model = model, cw_control = control \<rparr>, q2))"

record ControlListWidget =
  cl_self :: obj
  cl_model :: obj
  cl_controls :: "ControlWidget list"
  cl_model_connections :: "BindingOrConnection list"

text \<open>
  \<^verbatim>\<open>ControlListWidget.__init__(self, model, parent)\<close>. The workspace widgets call it as
  \<^verbatim>\<open>ControlListWidget(self)\<close>, so the first model it holds is the widget that creates it.
\<close>

definition ControlListWidget_init :: "obj \<Rightarrow> obj \<Rightarrow> ControlListWidget" where
  "ControlListWidget_init self model =
     \<lparr> cl_self = self, cl_model = model, cl_controls = [], cl_model_connections = [] \<rparr>"

definition add_widget :: "obj \<Rightarrow> ControlListWidget \<times> QtState \<Rightarrow> ControlListWidget \<times> QtState" where
  "add_widget control = (\<lambda>(w, q).
     (let (widget, q1) = ControlWidget_init (cl_model w) control q
      in (w\<lparr>cl_controls := cl_controls w @ [widget]\<rparr>, q1)))"

text \<open>
  \<^verbatim>\<open>_remove_widget\<close> for a widget of the list: it leaves the list and is handed to
  \<^verbatim>\<open>deleteLater()\<close>; nothing is disconnected.
\<close>

definition remove_widget :: "ControlWidget \<Rightarrow> ControlListWidget \<times> QtState \<Rightarrow> ControlListWidget \<times> QtState" where
  "remove_widget widget = (\<lambda>(w, q).
     (w\<lparr>cl_controls := remove1 widget (cl_controls w)\<rparr>,
      q\<lparr>delete_later := delete_later q @ [cw_self widget]\<rparr>))"

text \<open>\<^verbatim>\<open>while len(self._controls) > 0: self._remove_widget(self._controls[0])\<close>\<close>

function remove_all_widgets :: "ControlListWidget \<times> QtState \<Rightarrow> ControlListWidget \<times> QtState" where
  "remove_all_widgets (w, q) =
     (case cl_controls w of
        [] \<Rightarrow> (w, q)
      | widget # rest \<Rightarrow> remove_all_widgets (remove_widget widget (w, q)))"
  by pat_completeness auto
termination
  by (relation "measure (\<lambda>(w, q). length (cl_controls w))")
     (auto simp: remove_widget_def)

declare remove_all_widgets.simps [simp del]

text \<open>\<^verbatim>\<open>ControlListWidget.model\<close> (setter), with the list it assigns to \<^verbatim>\<open>_model_connections\<close>.\<close>

definition ControlListWidget_connections :: "obj \<Rightarrow> obj \<Rightarrow> Subscribe list" where
  "ControlListWidget_connections self m =
     [connection m ''control.added'' self ''_add_widget'',
      connection m ''control.removed'' self ''_remove_widget'']"

definition ControlListWidget_set_model :: "Model \<Rightarrow> ControlListWidget \<times> QtState \<Rightarrow> ControlListWidget \<times> QtState" where
  "ControlListWidget_set_model model = (\<lambda>(w, q).
     if cl_model w \<noteq> m_self model then
       (let (failed, q1) = disconnect_all (cl_model_connections w) q;
            w1 = w\<lparr>cl_model := m_self model\<rparr>;
            (w2, q2) = remove_all_widgets (w1, q1);
            (w3, q3) = fold add_widget (m_control model) (w2, q2);
            (cs, q4) = in_order (ControlListWidget_connections (cl_self w) (m_self model)) q3
        in (w3\<lparr>cl_model_connections := cs\<rparr>, q4))
     else (w, q))"

section \<open>The workspace widgets\<close>

text \<open>
  The application objects the widgets reach through \<^verbatim>\<open>root\<close> and \<^verbatim>\<open>settings\<close>.
\<close>

record Root =
  root_self :: obj
  root_connection :: obj
  root_settings :: obj
  root_active_model :: obj

record GenerationWidget =
  gw_self :: obj
  gw_model :: obj
  gw_model_bindings :: "BindingOrConnection list"
  gw_control_list :: ControlListWidget
  gw_queue_button :: QueueWidget
  gw_history :: HistoryWidget

text \<open>
  \<^verbatim>\<open>GenerationWidget.__init__\<close>: the model is \<^verbatim>\<open>root.active_model\<close>, the binding list is
  empty, and the widget and its children get the next free identities in the order of
  their creation. The subscriptions are those the constructor makes itself and those of
  the three children modelled here.
\<close>

definition GenerationWidget_init :: "Root \<Rightarrow> QtState \<Rightarrow> GenerationWidget \<times> QtState" where
  "GenerationWidget_init root' q =
     (let self = next_obj q;
          q0 = q\<lparr>next_obj := self + 6\<rparr>;
          (c1, q1) = in_order
            [connection (root_settings root') ''changed'' self ''update_settings'',
             connection self ''prompt_textbox.activated'' self ''generate'',
             connection self ''negative_textbox.activated'' self ''generate''] q0;
          control_list = ControlListWidget_init (self + 1) self;
          (c2, q2) = establish (connection self ''generate_button.clicked'' self ''generate'') q1;
          (queue_button, q3) = QueueWidget_init (self + 2) (self + 3) q2;
          (history, q4) = HistoryWidget_init (self + 4) (self + 5) q3;
          (c3, q5) = in_order
            [connection (self + 4) ''itemDoubleClicked'' self ''apply_result'',
             connection self ''apply_button.clicked'' self ''apply_selected_result''] q4
      in (\<lparr> gw_self = self, gw_model = root_active_model root', gw_model_bindings = [],
            gw_control_list = control_list, gw_queue_button = queue_button,
            gw_history = history \<rparr>, q5))"

text \<open>\<^verbatim>\<open>GenerationWidget.model\<close> (setter).\<close>

definition GenerationWidget_model_bindings :: "obj \<Rightarrow> obj \<Rightarrow> Subscribe list" where
  "GenerationWidget_model_bindings self m =
     [bind_property m ''workspace'' self ''workspace_select.value'' one_way,
      bind_property m ''style'' self ''style_select.value'' two_way,
      bind_property m ''prompt'' self ''prompt_textbox.text'' two_way,
      bind_property m ''negative_prompt'' self ''negative_textbox.text'' two_way,
      bind_property m ''strength'' self ''strength_slider.value'' two_way,
      connection m ''progress_changed'' self ''update_progress'',
      connection m ''error_changed'' self ''error_text.setText'',
      connection m ''has_error_changed'' self ''error_text.setVisible'',
      connection m ''can_apply_result_changed'' self ''apply_button.setEnabled'',
      connection self ''add_control_button.clicked'' m ''control.add'']"

definition GenerationWidget_set_model :: "Model \<Rightarrow> GenerationWidget \<times> QtState \<Rightarrow> (GenerationWidget \<times> QtState) option" where
  "GenerationWidget_set_model model = (\<lambda>(w, q).
     if gw_model w \<noteq> m_self model then
       (let (failed, q1) = disconnect_all (gw_model_bindings w) q;
            w1 = w\<lparr>gw_model := m_self model\<rparr>;
            self = gw_self w; m = m_self model;
            (bs, q2) = in_order (GenerationWidget_model_bindings self m) q1;
            w2 = w1\<lparr>gw_model_bindings := bs\<rparr>;
            (cl, q3) = ControlListWidget_set_model model (gw_control_list w2, q2)
        in do {
             (qb, q4) \<leftarrow> QueueWidget_set_jobs (m_jobs model) (gw_queue_button w2, q3);
             let (h, q5) = HistoryWidget_set_jobs (m_jobs model) (gw_history w2, q4);
             Some (w2\<lparr>gw_control_list := cl, gw_queue_button := qb, gw_history := h\<rparr>, q5)
           })
     else Some (w, q))"

record UpscaleWidget =
  uw_self :: obj
  uw_model :: obj
  uw_model_bindings :: "BindingOrConnection list"
  uw_queue_button :: QueueWidget

definition UpscaleWidget_init :: "Root \<Rightarrow> QtState \<Rightarrow> UpscaleWidget \<times> QtState" where
  "UpscaleWidget_init root' q =
     (let self = next_obj q;
          q0 = q\<lparr>next_obj := self + 3\<rparr>;
          (c1, q1) = in_order
            [connection (root_connection root') ''state_changed'' self ''update_models'',
             connection self ''factor_slider.valueChanged'' self ''change_factor_slider'',
             connection self ''factor_input.valueChanged'' self ''change_factor'',
             connection self ''upscale_button.clicked'' self ''upscale''] q0;
          (queue_button, q2) = QueueWidget_init (self + 1) (self + 2) q1
      in (\<lparr> uw_self = self, uw_model = root_active_model root', uw_model_bindings = [],
            uw_queue_button = queue_button \<rparr>, q2))"

text \<open>
  \<^verbatim>\<open>UpscaleWidget.model\<close> (setter), as far as the model, the binding list and the
  subscriptions go. The three calls that close the setter (\<^verbatim>\<open>update_factor\<close>,
  \<^verbatim>\<open>update_target_extent\<close> and \<^verbatim>\<open>update_progress\<close>) refresh what the factor controls, the
  target label and the progress bar show. They make and release no subscription, and the
  record holds none of the values they set, so they are left out here.
\<close>

definition UpscaleWidget_model_bindings :: "obj \<Rightarrow> obj \<Rightarrow> Subscribe list" where
  "UpscaleWidget_model_bindings self m =
     [bind_property m ''workspace'' self ''workspace_select.value'' one_way,
      bind_combo m ''upscale.upscaler'' self ''model_select'',
      connection m ''upscale.factor_changed'' self ''update_factor'',
      connection m ''upscale.target_extent_changed'' self ''update_target_extent'',
      bind_widget m ''upscale.use_diffusion'' self
      ''refinement_checkbox.toggled'' ''refinement_checkbox.setChecked'',
      bind_property m ''style'' self ''style_select.value'' two_way,
      bind_property m ''upscale.strength'' self ''strength_slider.value'' two_way,
      connection m ''progress_changed'' self ''update_progress'',
      connection m ''error_changed'' self ''error_text.setText'',
      connection m ''has_error_changed'' self ''error_text.setVisible'']"

definition UpscaleWidget_set_model :: "Model \<Rightarrow> UpscaleWidget \<times> QtState \<Rightarrow> (UpscaleWidget \<times> QtState) option" where
  "UpscaleWidget_set_model model = (\<lambda>(w, q).
     if uw_model w \<noteq> m_self model then
       (let (failed, q1) = disconnect_all (uw_model_bindings w) q;
            w1 = w\<lparr>uw_model := m_self model\<rparr>;
            self = uw_self w; m = m_self model;
            (bs, q2) = in_order (UpscaleWidget_model_bindings self m) q1;
            w2 = w1\<lparr>uw_model_bindings := bs\<rparr>
        in do {
             (qb, q3) \<leftarrow> QueueWidget_set_jobs (m_jobs model) (uw_queue_button w2, q2);
             Some (w2\<lparr>uw_queue_button := qb\<rparr>, q3)
           })
     else Some (w, q))"

record LiveWidget =
  lw_self :: obj
  lw_model :: obj
  lw_model_bindings :: "BindingOrConnection list"
  lw_control_list :: ControlListWidget

definition LiveWidget_init :: "Root \<Rightarrow> QtState \<Rightarrow> LiveWidget \<times> QtState" where
  "LiveWidget_init root' q =
     (let self = next_obj q;
          q0 = q\<lparr>next_obj := self + 2\<rparr>;
          (c1, q1) = in_order
            [connection (root_settings root') ''changed'' self ''update_settings'',
             connection self ''active_button.clicked'' self ''toggle_active'',
             connection self ''apply_button.clicked'' self ''apply_result''] q0
      in (\<lparr> lw_self = self, lw_model = root_active_model root', lw_model_bindings = [],
            lw_control_list = ControlListWidget_init (self + 1) self \<rparr>, q1))"

text \<open>\<^verbatim>\<open>LiveWidget.model\<close> (setter).\<close>

definition LiveWidget_model_bindings :: "obj \<Rightarrow> obj \<Rightarrow> Subscribe list" where
  "LiveWidget_model_bindings self m =
     [bind_property m ''workspace'' self ''workspace_select.value'' one_way,
      bind_property m ''style'' self ''style_select.value'' two_way,
      bind_property m ''live.strength'' self ''strength_slider.value'' two_way,
      bind_widget m ''live.seed'' self ''seed_input.valueChanged'' ''seed_input.setValue'',
      bind_property m ''prompt'' self ''prompt_textbox.text'' two_way,
      bind_property m ''negative_prompt'' self ''negative_textbox.text'' two_way,
      connection m ''live.is_active_changed'' self ''update_is_active'',
      connection m ''live.has_result_changed'' self ''apply_button.setEnabled'',
      connection self ''add_control_button.clicked'' m ''control.add'',
      connection self ''random_seed_button.clicked'' m ''live.generate_seed'',
      connection m ''error_changed'' self ''error_text.setText'',
      connection m ''has_error_changed'' self ''error_text.setVisible'',
      connection m ''live.result_available'' self ''show_result'']"

definition LiveWidget_set_model :: "Model \<Rightarrow> LiveWidget \<times> QtState \<Rightarrow> LiveWidget \<times> QtState" where
  "LiveWidget_set_model model = (\<lambda>(w, q).
     if lw_model w \<noteq> m_self model then
       (let (failed, q1) = disconnect_all (lw_model_bindings w) q;
            w1 = w\<lparr>lw_model := m_self model\<rparr>;
            self = lw_self w; m = m_self model;
            (bs, q2) = in_order (LiveWidget_model_bindings self m) q1;
            w2 = w1\<lparr>lw_model_bindings := bs\<rparr>;
            (cl, q3) = ControlListWidget_set_model model (lw_control_list w2, q2)
        in (w2\<lparr>lw_control_list := cl\<rparr>, q3))
     else (w, q))"

section \<open>ImageDiffusionWidget\<close>

datatype Page = Welcome | Generation | Upscaling | Live

record ImageDiffusionWidget =
  idw_generation :: GenerationWidget
  idw_upscaling :: UpscaleWidget
  idw_live :: LiveWidget
  idw_current :: Page

text \<open>
  \<^verbatim>\<open>ImageDiffusionWidget.update\<close>. \<open>model\<close> is what \<^verbatim>\<open>root.model_for_active_document()\<close>
  returns and \<open>state\<close> is \<^verbatim>\<open>root.connection.state\<close>. \<open>None\<close> as a result is an exception
  raised by one of the setters.
\<close>

definition update :: "Model option \<Rightarrow> ConnectionState \<Rightarrow> ImageDiffusionWidget \<times> QtState \<Rightarrow> (ImageDiffusionWidget \<times> QtState) option" where
  "update model state = (\<lambda>(w, q).
     if model = None \<or> state \<in> set [disconnected, connecting, error] then
       Some (w\<lparr>idw_current := Welcome\<rparr>, q)
     else
       (let m = the model in
        if m_workspace m = generation then
          do {
            (g, q1) \<leftarrow> GenerationWidget_set_model m (idw_generation w, q);
            Some (w\<lparr>idw_generation := g, idw_current := Generation\<rparr>, q1)
          }
        else if m_workspace m = upscaling then
          do {
            (u, q1) \<leftarrow> UpscaleWidget_set_model m (idw_upscaling w, q);
            Some (w\<lparr>idw_upscaling := u, idw_current := Upscaling\<rparr>, q1)
          }
        else if m_workspace m = live then
          (let (l, q1) = LiveWidget_set_model m (idw_live w, q)
           in Some (w\<lparr>idw_live := l, idw_current := Live\<rparr>, q1))
        else Some (w, q)))"

section \<open>Vocabulary for the subscription table\<close>

text \<open>
  The functions of this section are not part of the program; they describe what the
  program's calls do to the table: the subscriptions a list of calls makes, the handles
  it returns, the handles a binding list records, the rows a control list creates, and
  which objects a subscription joins.
\<close>

definition subscribe_all :: "Subscription list \<Rightarrow> QtState \<Rightarrow> QtState" where
  "subscribe_all subs q =
     q\<lparr>active := active q @ zip [next_handle q..<next_handle q + length subs] subs,
       next_handle := next_handle q + length subs\<rparr>"

fun subscriptions_of :: "Subscribe \<Rightarrow> Subscription list" where
  "subscriptions_of (Connect s) = [s]"
| "subscriptions_of (OneWay s) = [s]"
| "subscriptions_of (TwoWay s s') = [s, s']"

fun returned :: "nat \<Rightarrow> Subscribe list \<Rightarrow> BindingOrConnection list" where
  "returned n [] = []"
| "returned n (Connect s # ds) = Connection n # returned (Suc n) ds"
| "returned n (OneWay s # ds) = Binding n None # returned (Suc n) ds"
| "returned n (TwoWay s s' # ds) = Binding n (Some (Suc n)) # returned (Suc (Suc n)) ds"

definition recorded :: "BindingOrConnection list \<Rightarrow> nat list" where
  "recorded bs = concat (map handles_of bs)"

fun row_widgets :: "obj \<Rightarrow> obj \<Rightarrow> obj list \<Rightarrow> ControlWidget list" where
  "row_widgets model n [] = []"
| "row_widgets model n (c # cs) =
     \<lparr> cw_self = n, cw_model = model, cw_control = c \<rparr> # row_widgets model (Suc n) cs"

fun row_subscriptions :: "obj \<Rightarrow> obj \<Rightarrow> obj list \<Rightarrow> Subscription list" where
  "row_subscriptions model n [] = []"
| "row_subscriptions model n (c # cs) =
     concat (map subscriptions_of (ControlWidget_subscriptions n model c))
       @ row_subscriptions model (Suc n) cs"

definition touches :: "obj list \<Rightarrow> Subscription \<Rightarrow> bool" where
  "touches objs s \<longleftrightarrow> sub_sender s \<in> set objs \<or> sub_receiver s \<in> set objs"

definition links :: "obj list \<Rightarrow> obj list \<Rightarrow> QtState \<Rightarrow> (nat \<times> Subscription) list" where
  "links widgets objs q =
     filter (\<lambda>e. touches widgets (snd e) \<and> touches objs (snd e)) (active q)"

definition model_objects :: "Model \<Rightarrow> obj list" where
  "model_objects m = m_self m # jq_self (m_jobs m) # m_control m"

definition endpoints_in :: "obj set \<Rightarrow> Subscription \<Rightarrow> bool" where
  "endpoints_in X s \<longleftrightarrow> sub_sender s \<in> X \<and> sub_receiver s \<in> X"

definition confined :: "obj set \<Rightarrow> Subscribe \<Rightarrow> bool" where
  "confined X d \<longleftrightarrow> (\<forall>s \<in> set (subscriptions_of d). endpoints_in X s)"

definition own_objects :: "GenerationWidget \<Rightarrow> obj list" where
  "own_objects w =
     [gw_self w, cl_self (gw_control_list w), qw_self (gw_queue_button w),
      hw_self (gw_history w)]"

definition queue_subscription :: "GenerationWidget \<Rightarrow> Subscription" where
  "queue_subscription w =
     count_changed_update (qw_jobs (gw_queue_button w)) (qw_self (gw_queue_button w))"

definition recorded_handles :: "GenerationWidget \<Rightarrow> nat list" where
  "recorded_handles w =
     recorded (gw_model_bindings w) @ recorded (cl_model_connections (gw_control_list w))
       @ recorded (hw_connections (gw_history w))"

definition failed_positions :: "BindingOrConnection list \<Rightarrow> QtState \<Rightarrow> nat list" where
  "failed_positions bs q = fst (disconnect_all bs q)"

section \<open>A worked example: two documents\<close>

text \<open>
  A generation widget is created while no document is open (\<open>state_0\<close>), then shows the
  model of a document with one control layer (\<open>model_A\<close>, layer \<open>1002\<close>; the state is
  \<open>state_A\<close>), then the model of a second document (\<open>model_B\<close>). The widget is object
  \<open>10\<close>, its control list \<open>11\<close>, its queue button \<open>12\<close>, its history \<open>14\<close>, and the
  row created for the control layer is object \<open>16\<close>.
\<close>

definition example_root :: Root where
  "example_root =
     \<lparr> root_self = 1, root_connection = 2, root_settings = 3, root_active_model = 4 \<rparr>"

definition start_table :: QtState where
  "start_table = \<lparr> active = [], next_handle = 100, next_obj = 10, delete_later = [] \<rparr>"

definition model_A :: Model where
  "model_A = \<lparr> m_self = 1000, m_workspace = generation,
               m_jobs = \<lparr> jq_self = 1001, jq_jobs = [] \<rparr>,
               m_control = [1002] \<rparr>"

definition model_B :: Model where
  "model_B = \<lparr> m_self = 2000, m_workspace = generation,
               m_jobs = \<lparr> jq_self = 2001, jq_jobs = [] \<rparr>,
               m_control = [] \<rparr>"

definition state_0 :: "GenerationWidget \<times> QtState" where
  "state_0 =
     (\<lparr>gw_self = 10, gw_model = 4, gw_model_bindings = [],
     gw_control_list =
     \<lparr>cl_self = 11, cl_model = 10, cl_controls = [],
     cl_model_connections = []\<rparr>,
     gw_queue_button = \<lparr>qw_self = 12, qw_jobs = 13\<rparr>,
     gw_history =
     \<lparr>hw_self = 14, hw_jobs = 15, hw_connections = [],
     hw_last_prompt = None, hw_last_bounds = None, hw_items = [],
     hw_line_spacing = 14,
     hw_scrollbar =
     \<lparr>sb_visible = False, sb_value = 0, sb_maximum = 0\<rparr>\<rparr>\<rparr>,
     \<lparr>active =
     [(100,
     \<lparr>sub_sender = 3, sub_signal = ''changed'', sub_receiver = 10,
     sub_slot = ''update_settings''\<rparr>),
     (101,
     \<lparr>sub_sender = 10, sub_signal = ''prompt_textbox.activated'',
     sub_receiver = 10, sub_slot = ''generate''\<rparr>),
     (102,
     \<lparr>sub_sender = 10, sub_signal = ''negative_textbox.activated'',
     sub_receiver = 10, sub_slot = ''generate''\<rparr>),
     (103,
     \<lparr>sub_sender = 10, sub_signal = ''generate_button.clicked'',
     sub_receiver = 10, sub_slot = ''generate''\<rparr>),
     (104,
     \<lparr>sub_sender = 13, sub_signal = ''count_changed'', sub_receiver = 12,
     sub_slot = ''_update''\<rparr>),
     (105,
     \<lparr>sub_sender = 14, sub_signal = ''itemClicked'', sub_receiver = 14,
     sub_slot = ''handle_preview_click''\<rparr>),
     (106,
     \<lparr>sub_sender = 14, sub_signal = ''itemDoubleClicked'',
     sub_receiver = 10, sub_slot = ''apply_result''\<rparr>),
     (107,
     \<lparr>sub_sender = 10, sub_signal = ''apply_button.clicked'',
     sub_receiver = 10, sub_slot = ''apply_selected_result''\<rparr>)],
     next_handle = 108, next_obj = 16, delete_later = []\<rparr>)"

definition state_A :: "GenerationWidget \<times> QtState" where
  "state_A =
     (\<lparr>gw_self = 10, gw_model = 1000,
     gw_model_bindings =
     [Binding 108 None, Binding 109 (Some 110), Binding 111 (Some 112),
     Binding 113 (Some 114), Binding 115 (Some 116), Connection 117,
     Connection 118, Connection 119, Connection 120, Connection 121],
     gw_control_list =
     \<lparr>cl_self = 11, cl_model = 1000,
     cl_controls =
     [\<lparr>cw_self = 16, cw_model = 1000, cw_control = 1002\<rparr>],
     cl_model_connections = [Connection 141, Connection 142]\<rparr>,
     gw_queue_button = \<lparr>qw_self = 12, qw_jobs = 1001\<rparr>,
     gw_history =
     \<lparr>hw_self = 14, hw_jobs = 1001,
     hw_connections =
     [Connection 144, Connection 145, Connection 146],
     hw_last_prompt = None, hw_last_bounds = None, hw_items = [],
     hw_line_spacing = 14,
     hw_scrollbar =
     \<lparr>sb_visible = False, sb_value = 0, sb_maximum = 0\<rparr>\<rparr>\<rparr>,
     \<lparr>active =
     [(100,
     \<lparr>sub_sender = 3, sub_signal = ''changed'', sub_receiver = 10,
     sub_slot = ''update_settings''\<rparr>),
     (101,
     \<lparr>sub_sender = 10, sub_signal = ''prompt_textbox.activated'',
     sub_receiver = 10, sub_slot = ''generate''\<rparr>),
     (102,
     \<lparr>sub_sender = 10, sub_signal = ''negative_textbox.activated'',
     sub_receiver = 10, sub_slot = ''generate''\<rparr>),
     (103,
     \<lparr>sub_sender = 10, sub_signal = ''generate_button.clicked'',
     sub_receiver = 10, sub_slot = ''generate''\<rparr>),
     (105,
     \<lparr>sub_sender = 14, sub_signal = ''itemClicked'', sub_receiver = 14,
     sub_slot = ''handle_preview_click''\<rparr>),
     (106,
     \<lparr>sub_sender = 14, sub_signal = ''itemDoubleClicked'',
     sub_receiver = 10, sub_slot = ''apply_result''\<rparr>),
     (107,
     \<lparr>sub_sender = 10, sub_signal = ''apply_button.clicked'',
     sub_receiver = 10, sub_slot = ''apply_selected_result''\<rparr>),
     (108,
     \<lparr>sub_sender = 1000, sub_signal = ''workspace_changed'',
     sub_receiver = 10, sub_slot = ''workspace_select.value''\<rparr>),
     (109,
     \<lparr>sub_sender = 1000, sub_signal = ''style_changed'',
     sub_receiver = 10, sub_slot = ''style_select.value''\<rparr>),
     (110,
     \<lparr>sub_sender = 10, sub_signal = ''style_select.value_changed'',
     sub_receiver = 1000, sub_slot = ''style''\<rparr>),
     (111,
     \<lparr>sub_sender = 1000, sub_signal = ''prompt_changed'',
     sub_receiver = 10, sub_slot = ''prompt_textbox.text''\<rparr>),
     (112,
     \<lparr>sub_sender = 10, sub_signal = ''prompt_textbox.text_changed'',
     sub_receiver = 1000, sub_slot = ''prompt''\<rparr>),
     (113,
     \<lparr>sub_sender = 1000, sub_signal = ''negative_prompt_changed'',
     sub_receiver = 10, sub_slot = ''negative_textbox.text''\<rparr>),
     (114,
     \<lparr>sub_sender = 10, sub_signal = ''negative_textbox.text_changed'',
     sub_receiver = 1000, sub_slot = ''negative_prompt''\<rparr>),
     (115,
     \<lparr>sub_sender = 1000, sub_signal = ''strength_changed'',
     sub_receiver = 10, sub_slot = ''strength_slider.value''\<rparr>),
     (116,
     \<lparr>sub_sender = 10, sub_signal = ''strength_slider.value_changed'',
     sub_receiver = 1000, sub_slot = ''strength''\<rparr>),
     (117,
     \<lparr>sub_sender = 1000, sub_signal = ''progress_changed'',
     sub_receiver = 10, sub_slot = ''update_progress''\<rparr>),
     (118,
     \<lparr>sub_sender = 1000, sub_signal = ''error_changed'',
     sub_receiver = 10, sub_slot = ''error_text.setText''\<rparr>),
     (119,
     \<lparr>sub_sender = 1000, sub_signal = ''has_error_changed'',
     sub_receiver = 10, sub_slot = ''error_text.setVisible''\<rparr>),
     (120,
     \<lparr>sub_sender = 1000, sub_signal = ''can_apply_result_changed'',
     sub_receiver = 10, sub_slot = ''apply_button.setEnabled''\<rparr>),
     (121,
     \<lparr>sub_sender = 10, sub_signal = ''add_control_button.clicked'',
     sub_receiver = 1000, sub_slot = ''control.add''\<rparr>),
     (122,
     \<lparr>sub_sender = 1002, sub_signal = ''mode_changed'',
     sub_receiver = 16, sub_slot = ''mode_select.setCurrentIndex''\<rparr>),
     (123,
     \<lparr>sub_sender = 16, sub_signal = ''mode_select.currentIndexChanged'',
     sub_receiver = 1002, sub_slot = ''mode''\<rparr>),
     (124,
     \<lparr>sub_sender = 1002, sub_signal = ''layer_id_changed'',
     sub_receiver = 16, sub_slot = ''layer_select.setCurrentIndex''\<rparr>),
     (125,
     \<lparr>sub_sender = 16, sub_signal = ''layer_select.currentIndexChanged'',
     sub_receiver = 1002, sub_slot = ''layer_id''\<rparr>),
     (126,
     \<lparr>sub_sender = 1000, sub_signal = ''image_layers.changed'',
     sub_receiver = 16, sub_slot = ''_update_layers''\<rparr>),
     (127,
     \<lparr>sub_sender = 1002, sub_signal = ''has_active_job_changed'',
     sub_receiver = 16,
     sub_slot = ''lambda x: layer_select.setEnabled(not x)''\<rparr>),
     (128,
     \<lparr>sub_sender = 16, sub_signal = ''generate_button.clicked'',
     sub_receiver = 1002, sub_slot = ''generate''\<rparr>),
     (129,
     \<lparr>sub_sender = 1002, sub_signal = ''has_active_job_changed'',
     sub_receiver = 16,
     sub_slot = ''lambda x: generate_button.setEnabled(not x)''\<rparr>),
     (130,
     \<lparr>sub_sender = 16, sub_signal = ''add_pose_button.clicked'',
     sub_receiver = 16, sub_slot = ''_add_pose_character''\<rparr>),
     (131,
     \<lparr>sub_sender = 16, sub_signal = ''strength_spin.valueChanged'',
     sub_receiver = 1002,
     sub_slot = ''lambda x: setattr(control, strength, x / 100)''\<rparr>),
     (132,
     \<lparr>sub_sender = 1002, sub_signal = ''strength_changed'',
     sub_receiver = 16,
     sub_slot = ''lambda x: strength_spin.setValue(int(x * 100))''\<rparr>),
     (133,
     \<lparr>sub_sender = 1002, sub_signal = ''end_changed'', sub_receiver = 16,
     sub_slot = ''end_spin.setValue''\<rparr>),
     (134,
     \<lparr>sub_sender = 16, sub_signal = ''end_spin.valueChanged'',
     sub_receiver = 1002, sub_slot = ''end''\<rparr>),
     (135,
     \<lparr>sub_sender = 1002, sub_signal = ''error_text_changed'',
     sub_receiver = 16, sub_slot = ''_set_error''\<rparr>),
     (136,
     \<lparr>sub_sender = 16, sub_signal = ''remove_button.clicked'',
     sub_receiver = 16, sub_slot = ''remove''\<rparr>),
     (137,
     \<lparr>sub_sender = 1002, sub_signal = ''is_supported_changed'',
     sub_receiver = 16, sub_slot = ''_update_visibility''\<rparr>),
     (138,
     \<lparr>sub_sender = 1002, sub_signal = ''can_generate_changed'',
     sub_receiver = 16, sub_slot = ''_update_visibility''\<rparr>),
     (139,
     \<lparr>sub_sender = 1002, sub_signal = ''show_end_changed'',
     sub_receiver = 16, sub_slot = ''_update_visibility''\<rparr>),
     (140,
     \<lparr>sub_sender = 1002, sub_signal = ''is_pose_vector_changed'',
     sub_receiver = 16, sub_slot = ''_update_visibility''\<rparr>),
     (141,
     \<lparr>sub_sender = 1000, sub_signal = ''control.added'',
     sub_receiver = 11, sub_slot = ''_add_widget''\<rparr>),
     (142,
     \<lparr>sub_sender = 1000, sub_signal = ''control.removed'',
     sub_receiver = 11, sub_slot = ''_remove_widget''\<rparr>),
     (143,
     \<lparr>sub_sender = 1001, sub_signal = ''count_changed'',
     sub_receiver = 12, sub_slot = ''_update''\<rparr>),
     (144,
     \<lparr>sub_sender = 1001, sub_signal = ''selection_changed'',
     sub_receiver = 14, sub_slot = ''update_selection''\<rparr>),
     (145,
     \<lparr>sub_sender = 14, sub_signal = ''itemSelectionChanged'',
     sub_receiver = 14, sub_slot = ''select_item''\<rparr>),
     (146,
     \<lparr>sub_sender = 1001, sub_signal = ''job_finished'',
     sub_receiver = 14, sub_slot = ''add''\<rparr>)],
     next_handle = 147, next_obj = 17, delete_later = []\<rparr>)"

definition switched :: "(GenerationWidget \<times> QtState) option" where
  "switched =
     Option.bind
       (GenerationWidget_set_model model_A (GenerationWidget_init example_root start_table))
       (GenerationWidget_set_model model_B)"

definition subscriptions_to :: "obj list \<Rightarrow> (GenerationWidget \<times> QtState) option \<Rightarrow> (nat \<times> Subscription) list" where
  "subscriptions_to objs r =
     (case r of None \<Rightarrow> []
      | Some (w, q) \<Rightarrow> filter (\<lambda>e. touches objs (snd e)) (active q))"

definition example_upscale :: UpscaleWidget where
  "example_upscale =
     \<lparr> uw_self = 20, uw_model = 1000, uw_model_bindings = [],
       uw_queue_button = \<lparr> qw_self = 21, qw_jobs = 22 \<rparr> \<rparr>"

definition example_live :: LiveWidget where
  "example_live =
     \<lparr> lw_self = 30, lw_model = 1000, lw_model_bindings = [],
       lw_control_list = ControlListWidget_init 31 30 \<rparr>"

definition example_dock :: "ImageDiffusionWidget \<times> QtState" where
  "example_dock =
     (\<lparr> idw_generation = fst state_0, idw_upscaling = example_upscale,
        idw_live = example_live, idw_current = Welcome \<rparr>, snd state_0)"

section \<open>Python floats\<close>

text \<open>
  A Python \<^verbatim>\<open>float\<close> is an IEEE-754 binary64 number. The finite ones are rationals, and
  every operation rounds the exact result to the nearest number with a 53-bit significand,
  ties to even. The values in the widgets are far from the overflow and subnormal ranges,
  which are left out. \<open>binade q\<close> is the exponent \<open>e\<close> with \<open>2 ^ e \<le> q < 2 ^ (e + 1)\<close>.
\<close>

type_synonym double = rat

definition round_half_even :: "rat \<Rightarrow> int" where
  "round_half_even q =
     (let f = \<lfloor>q\<rfloor>; r = q - of_int f
      in if r < 1 / 2 then f else if 1 / 2 < r then f + 1
         else if even f then f else f + 1)"

definition binade :: "rat \<Rightarrow> int" where
  "binade q = (if 1 \<le> q then bitlen \<lfloor>q\<rfloor> - 1 else - bitlen (\<lceil>1 / q\<rceil> - 1))"

definition round_at :: "int \<Rightarrow> rat \<Rightarrow> rat" where
  "round_at d q =
     (if 0 \<le> d then of_int (round_half_even (q / 2 ^ nat d)) * 2 ^ nat d
      else of_int (round_half_even (q * 2 ^ nat (- d))) / 2 ^ nat (- d))"

definition to_double :: "rat \<Rightarrow> double" where
  "to_double q =
     (if q = 0 then 0
      else if 0 < q then round_at (binade q - 52) q
      else - round_at (binade (- q) - 52) (- q))"

text \<open>\<^verbatim>\<open>x * y\<close> and \<^verbatim>\<open>x / y\<close> on floats, \<^verbatim>\<open>int(x)\<close> (towards zero) and \<^verbatim>\<open>round(x)\<close>.\<close>

definition fmul :: "double \<Rightarrow> double \<Rightarrow> double" where
  "fmul x y = to_double (x * y)"

definition fdiv :: "double \<Rightarrow> double \<Rightarrow> double" where
  "fdiv x y = to_double (x / y)"

definition py_int :: "double \<Rightarrow> int" where
  "py_int x = (if 0 \<le> x then \<lfloor>x\<rfloor> else \<lceil>x\<rceil>)"

definition py_round :: "double \<Rightarrow> int" where
  "py_round x = round_half_even x"

text \<open>
  \<open>round_half_even\<close> of the quotient of two integers, computed on the integers: the proofs
  evaluate the float operations with it.
\<close>

definition round_quotient :: "int \<Rightarrow> int \<Rightarrow> int" where
  "round_quotient a b =
     (if 2 * (a mod b) < b then a div b
      else if b < 2 * (a mod b) then a div b + 1
      else if even (a div b) then a div b else a div b + 1)"

section \<open>StrengthWidget\<close>

text \<open>
  A \<^verbatim>\<open>QSlider\<close> and a \<^verbatim>\<open>QSpinBox\<close> hold an integer within a range: \<^verbatim>\<open>setValue\<close> bounds
  its argument to the range and emits \<^verbatim>\<open>valueChanged\<close> only when the stored value changes.
\<close>

record QSlider =
  sl_minimum :: int
  sl_maximum :: int
  sl_value :: int

record QSpinBox =
  sp_minimum :: int
  sp_maximum :: int
  sp_value :: int

definition bound :: "int \<Rightarrow> int \<Rightarrow> int \<Rightarrow> int" where
  "bound lo hi v = max lo (min hi v)"

text \<open>
  The widget with its slider, its spin input and the values emitted by \<^verbatim>\<open>value_changed\<close>,
  oldest first.
\<close>

record StrengthWidget =
  sw_slider :: QSlider
  sw_input :: QSpinBox
  sw_value_changed :: "double list"

definition StrengthWidget_value :: "StrengthWidget \<Rightarrow> double" where
  "StrengthWidget_value w = fdiv (of_int (sl_value (sw_slider w))) 100"

text \<open>
  Both \<^verbatim>\<open>valueChanged\<close> signals are connected to \<^verbatim>\<open>notify_changed\<close>, so the slot re-enters
  itself through \<^verbatim>\<open>setValue\<close>. The first argument bounds the depth of the calls; \<open>None\<close> is
  Python's \<^verbatim>\<open>RecursionError\<close>.
\<close>

fun notify_changed :: "nat \<Rightarrow> int \<Rightarrow> StrengthWidget \<Rightarrow> StrengthWidget option"
  and slider_setValue :: "nat \<Rightarrow> int \<Rightarrow> StrengthWidget \<Rightarrow> StrengthWidget option"
  and input_setValue :: "nat \<Rightarrow> int \<Rightarrow> StrengthWidget \<Rightarrow> StrengthWidget option" where
  "notify_changed 0 value w = None"
| "notify_changed (Suc depth) value w =
     do {
       w1 \<leftarrow> (if sl_value (sw_slider w) \<noteq> value then slider_setValue depth value w
              else Some w);
       w2 \<leftarrow> (if sp_value (sw_input w1) \<noteq> value then input_setValue depth value w1
              else Some w1);
       Some (w2\<lparr>sw_value_changed := sw_value_changed w2 @ [StrengthWidget_value w2]\<rparr>)
     }"
| "slider_setValue depth v w =
     (let v' = bound (sl_minimum (sw_slider w)) (sl_maximum (sw_slider w)) v
      in if v' = sl_value (sw_slider w) then Some w
         else notify_changed depth v' (w\<lparr>sw_slider := (sw_slider w)\<lparr>sl_value := v'\<rparr>\<rparr>))"
| "input_setValue depth v w =
     (let v' = bound (sp_minimum (sw_input w)) (sp_maximum (sw_input w)) v
      in if v' = sp_value (sw_input w) then Some w
         else notify_changed depth v' (w\<lparr>sw_input := (sw_input w)\<lparr>sp_value := v'\<rparr>\<rparr>))"

text \<open>
  The setter of \<^verbatim>\<open>StrengthWidget.value\<close>. \<^verbatim>\<open>setValue\<close> takes a C \<^verbatim>\<open>int\<close>: for an
  \<^verbatim>\<open>int(value * 100)\<close> that does not fit 32 bits the call raises \<^verbatim>\<open>OverflowError\<close>, which is
  \<open>None\<close> as well.
\<close>

definition StrengthWidget_set_value :: "nat \<Rightarrow> double \<Rightarrow> StrengthWidget \<Rightarrow> StrengthWidget option" where
  "StrengthWidget_set_value depth value w =
     (if value = StrengthWidget_value w then Some w
      else if py_int (fmul value 100) < - 2147483648 \<or> 2147483647 < py_int (fmul value 100)
      then None
      else do {
        w1 \<leftarrow> slider_setValue depth (py_int (fmul value 100)) w;
        input_setValue depth (py_int (fmul value 100)) w1
      })"

text \<open>
  The constructor: the slider takes the range it is given, the input always 1 to 100. A new
  slider or spin box holds 0, which \<^verbatim>\<open>setMinimum\<close> moves into the range.
\<close>

definition StrengthWidget_init :: "int \<times> int \<Rightarrow> StrengthWidget" where
  "StrengthWidget_init slider_range =
     \<lparr> sw_slider = \<lparr> sl_minimum = fst slider_range, sl_maximum = snd slider_range,
                      sl_value = bound (fst slider_range) (snd slider_range) 0 \<rparr>,
       sw_input = \<lparr> sp_minimum = 1, sp_maximum = 100, sp_value = 1 \<rparr>,
       sw_value_changed = [] \<rparr>"

text \<open>
  The user types \<open>v\<close> into the spin input: the input stores it and then emits
  \<^verbatim>\<open>valueChanged(v)\<close>, which calls \<open>notify_changed v\<close> on the state \<open>typed v w\<close>.
\<close>

definition typed :: "int \<Rightarrow> StrengthWidget \<Rightarrow> StrengthWidget" where
  "typed v w = w\<lparr>sw_input := (sw_input w)\<lparr>sp_value := v\<rparr>\<rparr>"

section \<open>TextPromptWidget\<close>

text \<open>
  The multi-line and the single-line editor, and the texts emitted by \<^verbatim>\<open>text_changed\<close>.
  \<^verbatim>\<open>QPlainTextEdit.setPlainText\<close> always emits \<^verbatim>\<open>textChanged\<close>, \<^verbatim>\<open>QLineEdit.setText\<close> only
  when the text differs. The editor normalises the line breaks of the text it is given;
  the record stores the text as given, so it stands for texts whose line breaks are
  line feeds.
\<close>

record TextPromptWidget =
  tp_line_count :: int
  tp_multi :: string
  tp_single :: string
  tp_text_changed :: "string list"

definition TextPromptWidget_text :: "TextPromptWidget \<Rightarrow> string" where
  "TextPromptWidget_text w = (if tp_line_count w > 1 then tp_multi w else tp_single w)"

definition notify_text_changed :: "TextPromptWidget \<Rightarrow> TextPromptWidget" where
  "notify_text_changed w = w\<lparr>tp_text_changed := tp_text_changed w @ [TextPromptWidget_text w]\<rparr>"

definition setPlainText :: "string \<Rightarrow> TextPromptWidget \<Rightarrow> TextPromptWidget" where
  "setPlainText v w = notify_text_changed (w\<lparr>tp_multi := v\<rparr>)"

definition setText :: "string \<Rightarrow> TextPromptWidget \<Rightarrow> TextPromptWidget" where
  "setText v w = (if v = tp_single w then w else notify_text_changed (w\<lparr>tp_single := v\<rparr>))"

definition TextPromptWidget_set_text :: "string \<Rightarrow> TextPromptWidget \<Rightarrow> TextPromptWidget" where
  "TextPromptWidget_set_text value w =
     (if value = TextPromptWidget_text w then w
      else if tp_line_count w > 1 then setPlainText value w
      else setText value w)"

section \<open>StyleSelectWidget\<close>

text \<open>
  The widget holds its value, the styles listed in its combo box, the combo's current index
  and the styles emitted by \<^verbatim>\<open>value_changed\<close>. \<^verbatim>\<open>change_style\<close> is the slot of the combo's
  \<^verbatim>\<open>currentIndexChanged\<close>; \<open>None\<close> is the \<^verbatim>\<open>IndexError\<close> of \<^verbatim>\<open>self._styles[index]\<close>.
\<close>

record Style =
  style_name :: string
  style_filename :: string

record StyleSelectWidget =
  ss_value :: Style
  ss_styles :: "Style list"
  ss_current_index :: int
  ss_value_changed :: "Style list"

definition py_index :: "'a list \<Rightarrow> int \<Rightarrow> 'a option" where
  "py_index xs i =
     (let n = int (length xs); j = (if i < 0 then n + i else i)
      in if 0 \<le> j \<and> j < n then Some (xs ! nat j) else None)"

fun findText :: "string \<Rightarrow> string list \<Rightarrow> int" where
  "findText t [] = - 1"
| "findText t (x # xs) = (if x = t then 0 else let i = findText t xs in if i < 0 then i else i + 1)"

definition change_style :: "StyleSelectWidget \<Rightarrow> StyleSelectWidget option" where
  "change_style w =
     do {
       style \<leftarrow> py_index (ss_styles w) (ss_current_index w);
       Some (if style \<noteq> ss_value w
             then w\<lparr>ss_value := style, ss_value_changed := ss_value_changed w @ [style]\<rparr>
             else w)
     }"

definition setCurrentIndex :: "int \<Rightarrow> StyleSelectWidget \<Rightarrow> StyleSelectWidget option" where
  "setCurrentIndex i w =
     (if i = ss_current_index w then Some w else change_style (w\<lparr>ss_current_index := i\<rparr>))"

definition setCurrentText :: "string \<Rightarrow> StyleSelectWidget \<Rightarrow> StyleSelectWidget option" where
  "setCurrentText t w =
     (let i = findText t (map style_name (ss_styles w))
      in if i < 0 then Some w else setCurrentIndex i w)"

definition StyleSelectWidget_set_value :: "Style \<Rightarrow> StyleSelectWidget \<Rightarrow> StyleSelectWidget option" where
  "StyleSelectWidget_set_value style w =
     (if style \<noteq> ss_value w then setCurrentText (style_name style) (w\<lparr>ss_value := style\<rparr>)
      else Some w)"

section \<open>ControlWidget: the strength and end controls\<close>

text \<open>
  A \<^verbatim>\<open>QDoubleSpinBox\<close> rounds the value it is given to its number of decimals (two unless
  \<^verbatim>\<open>setDecimals\<close> is called) and bounds it to its range. The rounding writes the exact
  value of the float with that many decimals, a tie going away from zero (0.125 gives
  0.13), and reads the result back as a float.
\<close>

record QDoubleSpinBox =
  dsp_minimum :: double
  dsp_maximum :: double
  dsp_decimals :: nat
  dsp_value :: double

definition round_half_up :: "rat \<Rightarrow> int" where
  "round_half_up q = (if 0 \<le> q then \<lfloor>q + 1 / 2\<rfloor> else - \<lfloor>- q + 1 / 2\<rfloor>)"

definition round_decimals :: "nat \<Rightarrow> double \<Rightarrow> double" where
  "round_decimals k x = to_double (of_int (round_half_up (x * 10 ^ k)) / 10 ^ k)"

definition QDoubleSpinBox_stored :: "QDoubleSpinBox \<Rightarrow> double \<Rightarrow> double" where
  "QDoubleSpinBox_stored sp v =
     max (dsp_minimum sp) (min (dsp_maximum sp) (round_decimals (dsp_decimals sp) v))"

text \<open>The control layer's two ratios, and the row's two spin boxes.\<close>

record ControlLayer =
  layer_strength :: double
  layer_end :: double

record ControlWidget_controls =
  cc_control :: ControlLayer
  cc_strength_spin :: QSpinBox
  cc_end_spin :: QDoubleSpinBox

text \<open>
  The two lambdas of the constructor: \<^verbatim>\<open>lambda x: self.strength_spin.setValue(int(x * 100))\<close>
  converts the layer's strength for the spin box, and
  \<^verbatim>\<open>lambda x: setattr(control, "strength", x / 100)\<close> converts back.
\<close>

definition strength_forward :: "double \<Rightarrow> int" where
  "strength_forward x = py_int (fmul x 100)"

definition strength_inverse :: "int \<Rightarrow> double" where
  "strength_inverse x = fdiv (of_int x) 100"

text \<open>
  \<open>strength_spin_setValue\<close> is \<^verbatim>\<open>strength_spin.setValue\<close> with the slot connected to
  \<^verbatim>\<open>valueChanged\<close>, which assigns \<^verbatim>\<open>control.strength\<close>.

  Modelled from the spec: the property \<^verbatim>\<open>ControlLayer.strength\<close> is declared in
  \<^verbatim>\<open>control.py\<close>, which is not among the sources. Spec 4.1: assigning a value equal to the
  stored one does nothing; otherwise the value is stored and the listeners of
  \<^verbatim>\<open>strength_changed\<close> are called with it, here the lambda that sets the spin box.
  \<open>set_strength\<close> is that assignment. The first argument bounds the depth of the calls.
\<close>

fun set_strength :: "nat \<Rightarrow> double \<Rightarrow> ControlWidget_controls \<Rightarrow> ControlWidget_controls option"
  and strength_spin_setValue :: "nat \<Rightarrow> int \<Rightarrow> ControlWidget_controls \<Rightarrow> ControlWidget_controls option" where
  "set_strength 0 x w = None"
| "set_strength (Suc depth) x w =
     (if x = layer_strength (cc_control w) then Some w
      else strength_spin_setValue depth (strength_forward x)
             (w\<lparr>cc_control := (cc_control w)\<lparr>layer_strength := x\<rparr>\<rparr>))"
| "strength_spin_setValue 0 v w = None"
| "strength_spin_setValue (Suc depth) v w =
     (let v' = bound (sp_minimum (cc_strength_spin w)) (sp_maximum (cc_strength_spin w)) v
      in if v' = sp_value (cc_strength_spin w) then Some w
         else set_strength depth (strength_inverse v')
                (w\<lparr>cc_strength_spin := (cc_strength_spin w)\<lparr>sp_value := v'\<rparr>\<rparr>))"

text \<open>
  The part of the constructor that creates the two spin boxes: \<^verbatim>\<open>setRange\<close>, then
  \<^verbatim>\<open>setValue\<close> with the layer's current value, before any slot is connected.
\<close>

definition ControlWidget_controls_init :: "ControlLayer \<Rightarrow> ControlWidget_controls" where
  "ControlWidget_controls_init control =
     (let strength_spin = \<lparr> sp_minimum = 0, sp_maximum = 100,
                             sp_value = bound 0 100 (py_int (fmul (layer_strength control) 100)) \<rparr>;
          end_spin0 = \<lparr> dsp_minimum = 0, dsp_maximum = 1, dsp_decimals = 2, dsp_value = 0 \<rparr>;
          end_spin = end_spin0\<lparr>dsp_value := QDoubleSpinBox_stored end_spin0 (layer_end control)\<rparr>
      in \<lparr> cc_control = control, cc_strength_spin = strength_spin, cc_end_spin = end_spin \<rparr>)"

definition example_controls :: ControlWidget_controls where
  "example_controls =
     ControlWidget_controls_init \<lparr> layer_strength = to_double (1 / 2), layer_end = 1 \<rparr>"

section \<open>Properties of HistoryWidget.add\<close>

lemma add_items_prefix: "\<exists>ys. hw_items (add job w) = hw_items w @ ys"
  by (simp add: add_def scrollToBottom_def Let_def)

text \<open>
  Claim C10. \<^verbatim>\<open>HistoryWidget.add\<close> leaves the widget as it is (its items, the stored last
  prompt and the stored last bounds included) for every job whose state is not finished
  or whose kind is not diffusion; so whenever a call changes the items, the job is a
  finished diffusion job.
\<close>

theorem add_ignores_unfinished:
  "(job_state job \<noteq> finished \<or> job_kind job \<noteq> diffusion \<longrightarrow>
      add job w = w
      \<and> hw_items (add job w) = hw_items w
      \<and> hw_last_prompt (add job w) = hw_last_prompt w
      \<and> hw_last_bounds (add job w) = hw_last_bounds w)
   \<and> (hw_items (add job w) \<noteq> hw_items w \<longrightarrow>
        job_state job = finished \<and> job_kind job = diffusion)"
  by (auto simp: add_def)

definition example_history :: HistoryWidget where
  "example_history =
     \<lparr> hw_self = 0, hw_jobs = 1, hw_connections = [], hw_last_prompt = None, hw_last_bounds = None,
       hw_items = [], hw_line_spacing = 14,
       hw_scrollbar = \<lparr> sb_visible = False, sb_value = 0, sb_maximum = 0 \<rparr> \<rparr>"

definition example_job :: "JobState \<Rightarrow> JobKind \<Rightarrow> Job" where
  "example_job st k =
     \<lparr> job_id = ''j1'', job_kind = k, job_state = st, job_prompt = ''a cat'',
       job_bounds = Bounds 0 0 512 512,
       job_timestamp = \<lparr> hour = 9, minute = 5 \<rparr>,
       job_results = [''img0'', ''img1''] \<rparr>"

theorem add_ignores_unfinished_witness:
  "job_state (example_job queued diffusion) \<noteq> finished
   \<and> add (example_job queued diffusion) example_history = example_history
   \<and> hw_items (add (example_job finished diffusion) example_history)
       \<noteq> hw_items example_history
   \<and> job_state (example_job finished diffusion) = finished
   \<and> job_kind (example_job finished diffusion) = diffusion"
proof -
  have q: "job_state (example_job queued diffusion) \<noteq> finished"
    by (simp add: example_job_def)
  have f: "hw_items (add (example_job finished diffusion) example_history)
             \<noteq> hw_items example_history"
    by (simp add: add_def example_job_def example_history_def Let_def)
  from add_ignores_unfinished [of "example_job queued diffusion" example_history]
       add_ignores_unfinished [of "example_job finished diffusion" example_history] q f
  show ?thesis by blast
qed

section \<open>Properties of disconnect_all\<close>

lemma active_QObject_disconnect:
  "active (snd (QObject_disconnect h q)) = filter (\<lambda>e. fst e \<noteq> h) (active q)"
  by (simp add: QObject_disconnect_def)

lemma active_Binding_disconnect:
  "active (Binding_disconnect h w q)
     = filter (\<lambda>e. fst e \<notin> set (handles_of (Binding h w))) (active q)"
  by (cases w) (auto simp: Binding_disconnect_def QObject_disconnect_def intro: filter_cong)

lemma active_disconnect_element:
  "active (snd (disconnect_element b q))
     = filter (\<lambda>e. fst e \<notin> set (handles_of b)) (active q)"
  by (cases b) (simp_all add: active_Binding_disconnect active_QObject_disconnect)

lemma active_disconnect_from:
  "active (snd (disconnect_from i bs q))
     = filter (\<lambda>e. fst e \<notin> (\<Union>b\<in>set bs. set (handles_of b))) (active q)"
proof (induction bs arbitrary: i q)
  case Nil
  then show ?case by simp
next
  case (Cons b bs)
  obtain ok q1 where e: "disconnect_element b q = (ok, q1)"
    by (cases "disconnect_element b q")
  have q1: "active q1 = filter (\<lambda>e. fst e \<notin> set (handles_of b)) (active q)"
    using active_disconnect_element [of b q] e by simp
  show ?case
    using Cons.IH [of "Suc i" q1] e q1
    by (auto simp: split_beta intro: filter_cong)
qed

lemma active_disconnect_all:
  "active (snd (disconnect_all bs q))
     = filter (\<lambda>e. fst e \<notin> (\<Union>b\<in>set bs. set (handles_of b))) (active q)"
  by (simp add: disconnect_all_def active_disconnect_from)

lemma disconnect_all_reports_first:
  "\<not> is_active h q \<Longrightarrow> 0 \<in> set (fst (disconnect_all (Connection h # bs) q))"
  by (simp add: disconnect_all_def QObject_disconnect_def split_beta)

text \<open>
  Claim C6. \<^verbatim>\<open>Binding.disconnect_all\<close>, on any list that mixes bindings and raw connection
  handles, disconnects every element: afterwards no handle of any element is active, and
  the subscriptions that remain are those of no element. On the empty list it returns
  the table as it was. A failing element does not stop the rest: when the first element
  is a handle that was already released, its position is reported and the handles of all
  the other elements are inactive all the same.
\<close>

theorem disconnect_all_every_element:
  "(\<forall>b \<in> set bs. \<forall>h \<in> set (handles_of b). \<not> is_active h (snd (disconnect_all bs q)))
   \<and> (\<forall>h. is_active h (snd (disconnect_all bs q))
          \<longleftrightarrow> is_active h q \<and> h \<notin> (\<Union>b\<in>set bs. set (handles_of b)))
   \<and> disconnect_all [] q = ([], q)
   \<and> (\<not> is_active h0 q \<longrightarrow>
         0 \<in> set (fst (disconnect_all (Connection h0 # bs) q))
         \<and> (\<forall>b \<in> set bs. \<forall>h \<in> set (handles_of b).
               \<not> is_active h (snd (disconnect_all (Connection h0 # bs) q))))"
proof -
  have "disconnect_all [] q = ([], q)"
    by (simp add: disconnect_all_def)
  moreover have "\<not> is_active h0 q \<longrightarrow> 0 \<in> set (fst (disconnect_all (Connection h0 # bs) q))"
    using disconnect_all_reports_first by blast
  ultimately show ?thesis
    by (auto simp: is_active_def active_disconnect_all)
qed

definition example_sub :: "obj \<Rightarrow> obj \<Rightarrow> Subscription" where
  "example_sub a b =
     \<lparr> sub_sender = a, sub_signal = ''changed'', sub_receiver = b, sub_slot = ''slot'' \<rparr>"

definition example_table :: QtState where
  "example_table =
     \<lparr> active = [(0, example_sub 10 20), (1, example_sub 20 10),
                 (2, example_sub 10 21), (3, example_sub 11 22)],
       next_handle = 6, next_obj = 100, delete_later = [] \<rparr>"

theorem disconnect_all_every_element_witness:
  "Binding 0 (Some 1) \<in> set [Binding 0 (Some 1), Connection 2]
   \<and> \<not> is_active 0 (snd (disconnect_all [Binding 0 (Some 1), Connection 2] example_table))
   \<and> \<not> is_active 1 (snd (disconnect_all [Binding 0 (Some 1), Connection 2] example_table))
   \<and> \<not> is_active 5 example_table
   \<and> 0 \<in> set (fst (disconnect_all
        (Connection 5 # [Binding 0 (Some 1), Connection 2]) example_table))
   \<and> \<not> is_active 2 (snd (disconnect_all
        (Connection 5 # [Binding 0 (Some 1), Connection 2]) example_table))
   \<and> is_active 3 (snd (disconnect_all [Binding 0 (Some 1), Connection 2] example_table))"
proof -
  have a: "\<not> is_active 5 example_table"
    by (simp add: is_active_def example_table_def)
  have b: "is_active 3 example_table"
    by (simp add: is_active_def example_table_def)
  from disconnect_all_every_element
         [of "[Binding 0 (Some 1), Connection 2]" example_table 5] a b
  show ?thesis by simp
qed

section \<open>What the calls do to the subscription table\<close>

lemma subscribe_all_Nil: "subscribe_all [] q = q"
  by (simp add: subscribe_all_def)

lemma subscribe_all_append:
  "subscribe_all ys (subscribe_all xs q) = subscribe_all (xs @ ys) q"
proof -
  have "[next_handle q..<next_handle q + (length xs + length ys)]
        = [next_handle q..<next_handle q + length xs]
          @ [next_handle q + length xs..<next_handle q + length xs + length ys]"
    by (metis add.assoc upt_add_eq_append le_add1)
  then show ?thesis
    by (simp add: subscribe_all_def add.assoc)
qed

lemma establish_closed:
  "establish d q = (hd (returned (next_handle q) [d]), subscribe_all (subscriptions_of d) q)"
  by (cases d) (simp_all add: connect_def subscribe_all_def)

lemma returned_Cons:
  "returned n (d # ds) = hd (returned n [d]) # returned (n + length (subscriptions_of d)) ds"
  by (cases d) simp_all

lemma in_order_closed:
  "in_order ds q
     = (returned (next_handle q) ds, subscribe_all (concat (map subscriptions_of ds)) q)"
proof (induction ds arbitrary: q)
  case Nil
  then show ?case by (simp add: subscribe_all_Nil)
next
  case (Cons d ds)
  have n: "next_handle (subscribe_all (subscriptions_of d) q)
             = next_handle q + length (subscriptions_of d)"
    by (simp add: subscribe_all_def)
  show ?case
    using Cons.IH [of "subscribe_all (subscriptions_of d) q"]
    by (simp add: establish_closed subscribe_all_append n returned_Cons [of _ d ds] del: returned.simps)
qed

lemma frame_disconnect_element:
  "snd (disconnect_element b q)
     = q\<lparr>active := filter (\<lambda>e. fst e \<notin> set (handles_of b)) (active q)\<rparr>"
proof (cases b)
  case (Connection h)
  then show ?thesis by (simp add: QObject_disconnect_def)
next
  case (Binding h w)
  then show ?thesis
    by (cases w) (auto simp: Binding_disconnect_def QObject_disconnect_def intro: filter_cong)
qed

lemma disconnect_from_closed:
  "snd (disconnect_from i bs q)
     = q\<lparr>active := filter (\<lambda>e. fst e \<notin> set (recorded bs)) (active q)\<rparr>"
proof (induction bs arbitrary: i q)
  case Nil
  then show ?case by (simp add: recorded_def)
next
  case (Cons b bs)
  have "snd (disconnect_from i (b # bs) q)
          = snd (disconnect_from (Suc i) bs (snd (disconnect_element b q)))"
    by (simp add: split_beta)
  also have "\<dots> = (snd (disconnect_element b q))
      \<lparr>active := filter (\<lambda>e. fst e \<notin> set (recorded bs)) (active (snd (disconnect_element b q)))\<rparr>"
    by (rule Cons.IH)
  also have "\<dots> = q\<lparr>active := filter (\<lambda>e. fst e \<notin> set (recorded (b # bs))) (active q)\<rparr>"
    by (auto simp: frame_disconnect_element recorded_def intro: filter_cong)
  finally show ?case .
qed

lemma disconnect_all_closed:
  "snd (disconnect_all bs q)
     = q\<lparr>active := filter (\<lambda>e. fst e \<notin> set (recorded bs)) (active q)\<rparr>"
  by (simp add: disconnect_all_def disconnect_from_closed)

lemma ControlWidget_init_closed:
  "ControlWidget_init model control q
     = (\<lparr> cw_self = next_obj q, cw_model = model, cw_control = control \<rparr>,
        subscribe_all (concat (map subscriptions_of
            (ControlWidget_subscriptions (next_obj q) model control)))
          (q\<lparr>next_obj := Suc (next_obj q)\<rparr>))"
  by (simp add: ControlWidget_init_def in_order_closed Let_def)

lemma remove_all_widgets_closed:
  "remove_all_widgets (w, q)
     = (w\<lparr>cl_controls := []\<rparr>,
        q\<lparr>delete_later := delete_later q @ map cw_self (cl_controls w)\<rparr>)"
proof (induction "cl_controls w" arbitrary: w q)
  case Nil
  then have "cl_controls w = []" by simp
  then show ?case
    by (subst remove_all_widgets.simps) simp
next
  case (Cons widget rest)
  from Cons.hyps(2) have c: "cl_controls w = widget # rest" by simp
  have "rest = cl_controls (w\<lparr>cl_controls := rest\<rparr>)" by simp
  from Cons.hyps(1) [OF this, of "q\<lparr>delete_later := delete_later q @ [cw_self widget]\<rparr>"]
  have IH: "remove_all_widgets
             (w\<lparr>cl_controls := rest\<rparr>, q\<lparr>delete_later := delete_later q @ [cw_self widget]\<rparr>)
           = (w\<lparr>cl_controls := []\<rparr>,
              q\<lparr>delete_later := delete_later q @ cw_self widget # map cw_self rest\<rparr>)"
    by simp
  show ?case
    by (subst remove_all_widgets.simps) (simp add: c remove_widget_def IH)
qed

lemma subscribe_all_next_obj:
  "subscribe_all subs (q\<lparr>next_obj := k\<rparr>) = (subscribe_all subs q)\<lparr>next_obj := k\<rparr>"
  by (simp add: subscribe_all_def)

lemma fold_add_widget_closed:
  "fold add_widget cs (w, q)
     = (w\<lparr>cl_controls := cl_controls w @ row_widgets (cl_model w) (next_obj q) cs\<rparr>,
        (subscribe_all (row_subscriptions (cl_model w) (next_obj q) cs) q)
          \<lparr>next_obj := next_obj q + length cs\<rparr>)"
proof (induction cs arbitrary: w q)
  case Nil
  then show ?case by (simp add: subscribe_all_Nil)
next
  case (Cons c cs)
  let ?w1 = "w\<lparr>cl_controls := cl_controls w
               @ [\<lparr> cw_self = next_obj q, cw_model = cl_model w, cw_control = c \<rparr>]\<rparr>"
  let ?S = "concat (map subscriptions_of (ControlWidget_subscriptions (next_obj q) (cl_model w) c))"
  let ?q1 = "(subscribe_all ?S q)\<lparr>next_obj := Suc (next_obj q)\<rparr>"
  have a: "add_widget c (w, q) = (?w1, ?q1)"
    by (simp add: add_widget_def ControlWidget_init_closed subscribe_all_next_obj)
  have n: "next_obj ?q1 = Suc (next_obj q)" "cl_model ?w1 = cl_model w"
    by simp_all
  have "fold add_widget (c # cs) (w, q) = fold add_widget cs (?w1, ?q1)"
    by (simp add: a)
  also have "\<dots> = (?w1\<lparr>cl_controls := cl_controls ?w1
                        @ row_widgets (cl_model ?w1) (next_obj ?q1) cs\<rparr>,
                    (subscribe_all (row_subscriptions (cl_model ?w1) (next_obj ?q1) cs) ?q1)
                      \<lparr>next_obj := next_obj ?q1 + length cs\<rparr>)"
    by (rule Cons.IH)
  also have "\<dots> = (w\<lparr>cl_controls := cl_controls w
                        @ row_widgets (cl_model w) (next_obj q) (c # cs)\<rparr>,
                    (subscribe_all (row_subscriptions (cl_model w) (next_obj q) (c # cs)) q)
                      \<lparr>next_obj := next_obj q + length (c # cs)\<rparr>)"
    unfolding n
    by (simp add: subscribe_all_next_obj subscribe_all_append)
  finally show ?case .
qed

lemma endpoints_in_mono: "endpoints_in X s \<Longrightarrow> X \<subseteq> Y \<Longrightarrow> endpoints_in Y s"
  by (auto simp: endpoints_in_def)

lemma not_touches: "endpoints_in X s \<Longrightarrow> X \<inter> set objs = {} \<Longrightarrow> \<not> touches objs s"
  by (auto simp: endpoints_in_def touches_def)

lemma active_subscribe_all:
  "set (active (subscribe_all subs q))
     = set (active q) \<union> set (zip [next_handle q..<next_handle q + length subs] subs)"
  by (simp add: subscribe_all_def)

lemma in_subscribe_all:
  "e \<in> set (active (subscribe_all subs q)) \<Longrightarrow> e \<in> set (active q) \<or> snd e \<in> set subs"
  by (cases e) (auto simp: active_subscribe_all dest: set_zip_rightD)

lemma filter_subscribe_all:
  "\<forall>s \<in> set subs. \<not> P s \<Longrightarrow>
   filter (\<lambda>e. P (snd e)) (active (subscribe_all subs q)) = filter (\<lambda>e. P (snd e)) (active q)"
proof -
  assume a: "\<forall>s \<in> set subs. \<not> P s"
  have "filter (\<lambda>e. P (snd e)) (zip [next_handle q..<next_handle q + length subs] subs) = []"
    using a by (auto simp: filter_empty_conv dest: set_zip_rightD)
  then show ?thesis
    by (simp add: subscribe_all_def)
qed

lemma endpoints_connection:
  "endpoints_in {a, b} s" if "s \<in> set (subscriptions_of (connection a x b y))"
  using that by (auto simp: connection_def endpoints_in_def)

lemma endpoints_bind_property:
  "endpoints_in {a, b} s" if "s \<in> set (subscriptions_of (bind_property a x b y d))"
  using that by (cases d) (auto simp: bind_property_def endpoints_in_def)

lemma endpoints_bind_widget:
  "endpoints_in {a, b} s" if "s \<in> set (subscriptions_of (bind_widget a x b y z))"
  using that by (auto simp: bind_widget_def endpoints_in_def)

lemma endpoints_bind_combo:
  "endpoints_in {a, b} s" if "s \<in> set (subscriptions_of (bind_combo a x b y))"
  using that by (auto simp: bind_combo_def dest: endpoints_bind_widget)

lemmas endpoints_calls =
  endpoints_connection endpoints_bind_property endpoints_bind_widget endpoints_bind_combo

lemma endpoints_ControlWidget_all:
  "list_all (endpoints_in {self, model, control})
     (concat (map subscriptions_of (ControlWidget_subscriptions self model control)))"
  by (simp add: ControlWidget_subscriptions_def connection_def bind_combo_def bind_widget_def
      endpoints_in_def)

lemma endpoints_ControlWidget:
  assumes "s \<in> set (concat (map subscriptions_of (ControlWidget_subscriptions self model control)))"
  shows "endpoints_in {self, model, control} s"
  using assms endpoints_ControlWidget_all [of self model control]
  unfolding list_all_iff by blast

lemma endpoints_rows:
  "s \<in> set (row_subscriptions model n cs) \<Longrightarrow>
   endpoints_in ({model} \<union> set cs \<union> {k. n \<le> k}) s"
proof (induction cs arbitrary: n)
  case Nil
  then show ?case by simp
next
  case (Cons c cs)
  from Cons.prems consider
      "s \<in> set (concat (map subscriptions_of (ControlWidget_subscriptions n model c)))"
    | "s \<in> set (row_subscriptions model (Suc n) cs)"
    by auto
  then show ?case
  proof cases
    case 1
    then have "endpoints_in {n, model, c} s"
      by (rule endpoints_ControlWidget)
    then show ?thesis
      by (auto simp: endpoints_in_def)
  next
    case 2
    from Cons.IH [OF this] show ?thesis
      by (auto simp: endpoints_in_def)
  qed
qed

lemma remove_first_None: "remove_first s es = None \<longleftrightarrow> s \<notin> snd ` set es"
  by (induction es) auto

lemma remove_first_subset: "remove_first s es = Some es' \<Longrightarrow> set es' \<subseteq> set es"
  by (induction es arbitrary: es') (auto split: if_splits)

lemma remove_first_filter:
  "remove_first s es = Some es' \<Longrightarrow>
   filter (\<lambda>e. snd e = s) es' = tl (filter (\<lambda>e. snd e = s) es)"
  by (induction es arbitrary: es') (auto split: if_splits)

lemma remove_first_unique:
  assumes "filter (\<lambda>e. snd e = s) es = [x]"
  shows "\<exists>es'. remove_first s es = Some es' \<and> set es' \<subseteq> set es \<and> s \<notin> snd ` set es'"
proof -
  have "x \<in> set (filter (\<lambda>e. snd e = s) es)"
    using assms by simp
  then have "s \<in> snd ` set es" by force
  then obtain es' where r: "remove_first s es = Some es'"
    using remove_first_None [of s es] by (cases "remove_first s es") auto
  have "filter (\<lambda>e. snd e = s) es' = []"
    using remove_first_filter [OF r] assms by simp
  then have "s \<notin> snd ` set es'"
    by (auto simp: filter_empty_conv)
  with r remove_first_subset [OF r] show ?thesis by blast
qed

lemma connect_subscribe_all: "snd (connect s q) = subscribe_all [s] q"
  by (simp add: connect_def subscribe_all_def)

lemma HistoryWidget_set_jobs_closed:
  "snd (HistoryWidget_set_jobs jobs (w, q))
     = subscribe_all (concat (map subscriptions_of
         (HistoryWidget_connections (hw_self w) (jq_self jobs))))
         (q\<lparr>active := filter (\<lambda>e. fst e \<notin> set (recorded (hw_connections w))) (active q)\<rparr>)"
  by (simp add: HistoryWidget_set_jobs_def split_beta in_order_closed disconnect_all_closed Let_def
      del: in_order.simps)

lemma confined_connection: "confined X (connection a x b y) \<longleftrightarrow> a \<in> X \<and> b \<in> X"
  by (auto simp: confined_def connection_def endpoints_in_def)

lemma confined_bind_property: "confined X (bind_property a x b y d) \<longleftrightarrow> a \<in> X \<and> b \<in> X"
  by (cases d) (auto simp: confined_def bind_property_def endpoints_in_def)

lemma confined_bind_widget: "confined X (bind_widget a x b y z) \<longleftrightarrow> a \<in> X \<and> b \<in> X"
  by (auto simp: confined_def bind_widget_def endpoints_in_def)

lemma confined_bind_combo: "confined X (bind_combo a x b y) \<longleftrightarrow> a \<in> X \<and> b \<in> X"
  by (simp add: bind_combo_def confined_bind_widget)

lemmas confined_calls =
  confined_connection confined_bind_property confined_bind_widget confined_bind_combo

lemma in_subscribe_all_within:
  assumes "e \<in> set (active (subscribe_all (concat (map subscriptions_of ds)) q))"
    and "list_all (confined X) ds"
  shows "e \<in> set (active q) \<or> endpoints_in X (snd e)"
  using in_subscribe_all [OF assms(1)] assms(2)
  by (auto simp: list_all_iff confined_def)

lemma HistoryWidget_set_jobs_active:
  assumes "e \<in> set (active (snd (HistoryWidget_set_jobs jobs (w, q))))"
  shows "(e \<in> set (active q) \<and> fst e \<notin> set (recorded (hw_connections w)))
         \<or> endpoints_in {jq_self jobs, hw_self w} (snd e)"
proof -
  have "list_all (confined {jq_self jobs, hw_self w})
          (HistoryWidget_connections (hw_self w) (jq_self jobs))"
    by (simp add: HistoryWidget_connections_def confined_calls)
  from in_subscribe_all_within [OF assms [unfolded HistoryWidget_set_jobs_closed] this]
  show ?thesis by auto
qed

lemma history_no_links:
  assumes H: "\<forall>e \<in> set (active q). touches [hw_self w] (snd e) \<and> touches old (snd e)
                \<longrightarrow> fst e \<in> set (recorded (hw_connections w))"
    and new: "jq_self jobs \<notin> set old" "hw_self w \<notin> set old"
  shows "links [hw_self w] old (snd (HistoryWidget_set_jobs jobs (w, q))) = []"
proof -
  have "\<not> (touches [hw_self w] (snd e) \<and> touches old (snd e))"
    if "e \<in> set (active (snd (HistoryWidget_set_jobs jobs (w, q))))" for e
    using HistoryWidget_set_jobs_active [OF that]
  proof
    assume "e \<in> set (active q) \<and> fst e \<notin> set (recorded (hw_connections w))"
    with H show ?thesis by blast
  next
    assume "endpoints_in {jq_self jobs, hw_self w} (snd e)"
    then have "\<not> touches old (snd e)"
      using new by (auto simp: endpoints_in_def touches_def)
    then show ?thesis by simp
  qed
  then show ?thesis
    by (auto simp: links_def filter_empty_conv)
qed

lemma queue_set_jobs:
  assumes U: "filter (\<lambda>e. snd e = count_changed_update (qw_jobs w) (qw_self w)) (active q) = [x]"
  shows "\<exists>q1. QueueWidget_set_jobs jobs (w, q)
            = Some (w\<lparr>qw_jobs := jq_self jobs\<rparr>,
                    subscribe_all [count_changed_update (jq_self jobs) (qw_self w)] q1)
          \<and> set (active q1) \<subseteq> set (active q)
          \<and> count_changed_update (qw_jobs w) (qw_self w) \<notin> snd ` set (active q1)
          \<and> next_obj q1 = next_obj q \<and> next_handle q1 = next_handle q"
proof -
  from remove_first_unique [OF U] obtain es'
    where r: "remove_first (count_changed_update (qw_jobs w) (qw_self w)) (active q) = Some es'"
      and s: "set es' \<subseteq> set (active q)"
      and n: "count_changed_update (qw_jobs w) (qw_self w) \<notin> snd ` set es'"
    by blast
  show ?thesis
    using r s n
    by (intro exI [of _ "q\<lparr>active := es'\<rparr>"])
       (simp add: QueueWidget_set_jobs_def disconnect_slot_def connect_subscribe_all)
qed

lemma queue_no_links:
  assumes U: "filter (\<lambda>e. snd e = count_changed_update (qw_jobs w) (qw_self w)) (active q) = [x]"
    and H: "\<forall>e \<in> set (active q). touches [qw_self w] (snd e) \<and> touches old (snd e)
                \<longrightarrow> snd e = count_changed_update (qw_jobs w) (qw_self w)"
    and new: "jq_self jobs \<notin> set old" "qw_self w \<notin> set old"
  shows "\<exists>w' q'. QueueWidget_set_jobs jobs (w, q) = Some (w', q')
            \<and> qw_jobs w' = jq_self jobs \<and> links [qw_self w] old q' = []"
proof -
  from queue_set_jobs [OF U, of jobs] obtain q1
    where r: "QueueWidget_set_jobs jobs (w, q)
            = Some (w\<lparr>qw_jobs := jq_self jobs\<rparr>,
                    subscribe_all [count_changed_update (jq_self jobs) (qw_self w)] q1)"
      and s: "set (active q1) \<subseteq> set (active q)"
      and n: "count_changed_update (qw_jobs w) (qw_self w) \<notin> snd ` set (active q1)"
    by blast
  have "\<not> (touches [qw_self w] (snd e) \<and> touches old (snd e))"
    if "e \<in> set (active (subscribe_all [count_changed_update (jq_self jobs) (qw_self w)] q1))"
    for e
    using in_subscribe_all [OF that]
  proof
    assume "e \<in> set (active q1)"
    with s n H show ?thesis by force
  next
    assume "snd e \<in> set [count_changed_update (jq_self jobs) (qw_self w)]"
    then show ?thesis
      using new by (auto simp: count_changed_update_def touches_def)
  qed
  then have "links [qw_self w] old
      (subscribe_all [count_changed_update (jq_self jobs) (qw_self w)] q1) = []"
    by (auto simp: links_def filter_empty_conv)
  with r show ?thesis by simp
qed

lemma ControlListWidget_set_model_closed:
  assumes "cl_model w \<noteq> m_self model"
  shows "snd (ControlListWidget_set_model model (w, q))
     = subscribe_all (concat (map subscriptions_of
         (ControlListWidget_connections (cl_self w) (m_self model))))
        ((subscribe_all (row_subscriptions (m_self model) (next_obj q) (m_control model))
           (q\<lparr>active := filter (\<lambda>e. fst e \<notin> set (recorded (cl_model_connections w))) (active q),
              delete_later := delete_later q @ map cw_self (cl_controls w)\<rparr>))
         \<lparr>next_obj := next_obj q + length (m_control model)\<rparr>)"
  using assms
  by (simp add: ControlListWidget_set_model_def split_beta Let_def disconnect_all_closed
      remove_all_widgets_closed fold_add_widget_closed in_order_closed
      del: in_order.simps)

lemma active_next_obj_update: "active (q\<lparr>next_obj := k\<rparr>) = active q"
  by simp

lemma ControlListWidget_set_model_active:
  assumes g: "cl_model w \<noteq> m_self model"
    and e: "e \<in> set (active (snd (ControlListWidget_set_model model (w, q))))"
  shows "(e \<in> set (active q) \<and> fst e \<notin> set (recorded (cl_model_connections w)))
         \<or> endpoints_in ({m_self model} \<union> set (m_control model) \<union> {k. next_obj q \<le> k}) (snd e)
         \<or> endpoints_in {m_self model, cl_self w} (snd e)"
proof -
  have l: "list_all (confined {m_self model, cl_self w})
             (ControlListWidget_connections (cl_self w) (m_self model))"
    by (simp add: ControlListWidget_connections_def confined_calls)
  from in_subscribe_all_within [OF e [unfolded ControlListWidget_set_model_closed [OF g]] l]
  show ?thesis
  proof
    assume "e \<in> set (active ((subscribe_all (row_subscriptions (m_self model) (next_obj q) (m_control model))
           (q\<lparr>active := filter (\<lambda>e. fst e \<notin> set (recorded (cl_model_connections w))) (active q),
              delete_later := delete_later q @ map cw_self (cl_controls w)\<rparr>))
         \<lparr>next_obj := next_obj q + length (m_control model)\<rparr>))"
    then have "e \<in> set (active (subscribe_all (row_subscriptions (m_self model) (next_obj q) (m_control model))
           (q\<lparr>active := filter (\<lambda>e. fst e \<notin> set (recorded (cl_model_connections w))) (active q),
              delete_later := delete_later q @ map cw_self (cl_controls w)\<rparr>)))"
      by simp
    from in_subscribe_all [OF this] show ?thesis
      by (auto dest: endpoints_rows)
  next
    assume "endpoints_in {m_self model, cl_self w} (snd e)"
    then show ?thesis by simp
  qed
qed

lemma not_count_changed_update:
  "endpoints_in X s \<Longrightarrow> b \<notin> X \<Longrightarrow> s \<noteq> count_changed_update a b"
  by (auto simp: endpoints_in_def count_changed_update_def)

lemma filter_eq_subscribe_all:
  "s \<notin> set subs \<Longrightarrow>
   filter (\<lambda>e. snd e = s) (active (subscribe_all subs q)) = filter (\<lambda>e. snd e = s) (active q)"
  using filter_subscribe_all [of subs "\<lambda>x. x = s" q] by auto

lemma filter_eq_calls:
  assumes "list_all (confined X) ds" "b \<notin> X"
  shows "filter (\<lambda>e. snd e = count_changed_update a b)
           (active (subscribe_all (concat (map subscriptions_of ds)) q))
         = filter (\<lambda>e. snd e = count_changed_update a b) (active q)"
proof (rule filter_eq_subscribe_all)
  show "count_changed_update a b \<notin> set (concat (map subscriptions_of ds))"
    using assms not_count_changed_update [of X _ b a]
    by (auto simp: list_all_iff confined_def)
qed

lemma filter_unique_survives:
  "filter (\<lambda>e. snd e = s) es = [(h, s)] \<Longrightarrow> h \<notin> R \<Longrightarrow>
   filter (\<lambda>e. snd e = s) (filter (\<lambda>e. fst e \<notin> R) es) = [(h, s)]"
proof -
  assume a: "filter (\<lambda>e. snd e = s) es = [(h, s)]" and h: "h \<notin> R"
  have "filter (\<lambda>e. snd e = s) (filter (\<lambda>e. fst e \<notin> R) es)
        = filter (\<lambda>e. fst e \<notin> R) (filter (\<lambda>e. snd e = s) es)"
    by (simp add: conj_commute)
  with a h show ?thesis by simp
qed

lemma ControlListWidget_set_model_unique:
  assumes g: "cl_model w \<noteq> m_self model"
    and U: "filter (\<lambda>e. snd e = count_changed_update a b) (active q)
              = [(h, count_changed_update a b)]"
    and h: "h \<notin> set (recorded (cl_model_connections w))"
    and b: "b \<noteq> m_self model" "b \<notin> set (m_control model)" "b < next_obj q" "b \<noteq> cl_self w"
  shows "filter (\<lambda>e. snd e = count_changed_update a b)
           (active (snd (ControlListWidget_set_model model (w, q))))
         = [(h, count_changed_update a b)]"
proof -
  have l: "list_all (confined {m_self model, cl_self w})
             (ControlListWidget_connections (cl_self w) (m_self model))"
    by (simp add: ControlListWidget_connections_def confined_calls)
  have r: "count_changed_update a b
             \<notin> set (row_subscriptions (m_self model) (next_obj q) (m_control model))"
    using b endpoints_rows [of "count_changed_update a b" "m_self model" "next_obj q" "m_control model"]
    by (auto simp: endpoints_in_def count_changed_update_def)
  let ?P = "\<lambda>e. snd e = count_changed_update a b"
  let ?q1 = "q\<lparr>active := filter (\<lambda>e. fst e \<notin> set (recorded (cl_model_connections w))) (active q),
              delete_later := delete_later q @ map cw_self (cl_controls w)\<rparr>"
  let ?q2 = "subscribe_all (row_subscriptions (m_self model) (next_obj q) (m_control model)) ?q1"
  let ?q3 = "?q2\<lparr>next_obj := next_obj q + length (m_control model)\<rparr>"
  have "filter ?P (active (snd (ControlListWidget_set_model model (w, q))))
          = filter ?P (active ?q3)"
    unfolding ControlListWidget_set_model_closed [OF g]
    by (rule filter_eq_calls [OF l]) (use b in simp)
  also have "\<dots> = filter ?P (active ?q2)"
    by simp
  also have "\<dots> = filter ?P (active ?q1)"
    by (rule filter_eq_subscribe_all [OF r])
  also have "\<dots> = [(h, count_changed_update a b)]"
    using filter_unique_survives [OF U h] by simp
  finally show ?thesis .
qed

section \<open>What a model switch removes and what it keeps\<close>

lemma GenerationWidget_model_bindings_within:
  "list_all (confined {self, m}) (GenerationWidget_model_bindings self m)"
  by (simp add: GenerationWidget_model_bindings_def confined_calls)

lemma generation_no_links:
  assumes guard: "gw_model w \<noteq> m_self model" "cl_model (gw_control_list w) \<noteq> m_self model"
    and H: "\<forall>e \<in> set (active q).
              touches (own_objects w) (snd e) \<and> touches old (snd e)
                \<longrightarrow> fst e \<in> set (recorded_handles w) \<or> snd e = queue_subscription w"
    and U: "filter (\<lambda>e. snd e = queue_subscription w) (active q) = [(hq, queue_subscription w)]"
           "hq \<notin> set (recorded_handles w)"
    and ids: "distinct (own_objects w)" "set (own_objects w) \<inter> set old = {}"
             "set (model_objects model) \<inter> set old = {}"
             "set (model_objects model) \<inter> set (own_objects w) = {}"
             "\<forall>x \<in> set (own_objects w). x < next_obj q"
  shows "\<exists>w' q'. GenerationWidget_set_model model (w, q) = Some (w', q')
           \<and> gw_model w' = m_self model \<and> links (own_objects w) old q' = []"
proof -
  let ?cc = "queue_subscription w"
  let ?qs = "qw_self (gw_queue_button w)"
  let ?q1 = "q\<lparr>active := filter (\<lambda>e. fst e \<notin> set (recorded (gw_model_bindings w))) (active q)\<rparr>"
  let ?q2 = "subscribe_all (concat (map subscriptions_of
               (GenerationWidget_model_bindings (gw_self w) (m_self model)))) ?q1"
  let ?q3 = "snd (ControlListWidget_set_model model (gw_control_list w, ?q2))"
  have cc: "?cc = count_changed_update (qw_jobs (gw_queue_button w)) ?qs"
    by (simp add: queue_subscription_def)
  have d: "?qs \<noteq> gw_self w" "?qs \<noteq> cl_self (gw_control_list w)"
          "?qs \<noteq> hw_self (gw_history w)"
    using ids(1) by (auto simp: own_objects_def)
  have m: "?qs \<noteq> m_self model" "?qs \<notin> set (m_control model)" "?qs < next_obj q"
    using ids(4,5) by (auto simp: own_objects_def model_objects_def)
  \<comment> \<open>the queue's subscription is still there, once, when the queue button is reached\<close>
  have u1: "filter (\<lambda>e. snd e = ?cc) (active ?q1) = [(hq, ?cc)]"
    using filter_unique_survives [OF U(1), of "set (recorded (gw_model_bindings w))"] U(2)
    by (simp add: recorded_handles_def)
  have u2: "filter (\<lambda>e. snd e = ?cc) (active ?q2) = [(hq, ?cc)]"
    unfolding cc
    using filter_eq_calls [OF GenerationWidget_model_bindings_within, of ?qs "gw_self w" "m_self model"
        "qw_jobs (gw_queue_button w)" ?q1] d m u1
    by (simp add: cc)
  have u3: "filter (\<lambda>e. snd e = ?cc) (active ?q3) = [(hq, ?cc)]"
    unfolding cc
    by (rule ControlListWidget_set_model_unique [OF guard(2)])
       (use u2 U(2) d m in \<open>simp_all add: cc recorded_handles_def subscribe_all_def\<close>)
  from queue_set_jobs [of "gw_queue_button w" ?q3 "(hq, ?cc)" "m_jobs model"] u3
  obtain q4 where
    r: "QueueWidget_set_jobs (m_jobs model) (gw_queue_button w, ?q3)
          = Some ((gw_queue_button w)\<lparr>qw_jobs := jq_self (m_jobs model)\<rparr>,
                  subscribe_all [count_changed_update (jq_self (m_jobs model)) ?qs] q4)"
    and s4: "set (active q4) \<subseteq> set (active ?q3)"
    and n4: "?cc \<notin> snd ` set (active q4)"
    by (auto simp: cc)
  let ?q5 = "subscribe_all [count_changed_update (jq_self (m_jobs model)) ?qs] q4"
  let ?q6 = "snd (HistoryWidget_set_jobs (m_jobs model) (gw_history w, ?q5))"
  have res: "GenerationWidget_set_model model (w, q)
      = Some (w\<lparr>gw_model := m_self model,
                gw_model_bindings := fst (in_order
                   (GenerationWidget_model_bindings (gw_self w) (m_self model)) ?q1),
                gw_control_list := fst (ControlListWidget_set_model model (gw_control_list w, ?q2)),
                gw_queue_button := (gw_queue_button w)\<lparr>qw_jobs := jq_self (m_jobs model)\<rparr>,
                gw_history := fst (HistoryWidget_set_jobs (m_jobs model) (gw_history w, ?q5))\<rparr>,
              ?q6)"
    using guard(1) r
    by (simp add: GenerationWidget_set_model_def split_beta Let_def disconnect_all_closed
        in_order_closed del: in_order.simps)
  \<comment> \<open>every subscription left joins no object of the widget to an old object\<close>
  have new: "\<not> (touches (own_objects w) s \<and> touches old s)"
    if "endpoints_in (set (own_objects w) \<union> set (model_objects model)) s" for s
    using that ids(2,3) by (auto simp: endpoints_in_def touches_def)
  have row: "\<not> touches (own_objects w) s"
    if "endpoints_in ({m_self model} \<union> set (m_control model) \<union> {k. next_obj q \<le> k}) s" for s
    using that ids(4,5) by (fastforce simp: endpoints_in_def touches_def model_objects_def)
  have "\<not> (touches (own_objects w) (snd e) \<and> touches old (snd e))"
    if e: "e \<in> set (active ?q6)" for e
  proof -
    from HistoryWidget_set_jobs_active [OF e]
    consider (hist) "endpoints_in {jq_self (m_jobs model), hw_self (gw_history w)} (snd e)"
      | (before) "e \<in> set (active ?q5)" "fst e \<notin> set (recorded (hw_connections (gw_history w)))"
      by blast
    then show ?thesis
    proof cases
      case hist
      then have "endpoints_in (set (own_objects w) \<union> set (model_objects model)) (snd e)"
        by (auto simp: endpoints_in_def own_objects_def model_objects_def)
      then show ?thesis by (rule new)
    next
      case before
      from in_subscribe_all [OF before(1)]
      consider (queue) "snd e = count_changed_update (jq_self (m_jobs model)) ?qs"
        | (q4) "e \<in> set (active q4)"
        by auto
      then show ?thesis
      proof cases
        case queue
        then have "endpoints_in (set (own_objects w) \<union> set (model_objects model)) (snd e)"
          by (auto simp: endpoints_in_def own_objects_def model_objects_def
              count_changed_update_def)
        then show ?thesis by (rule new)
      next
        case q4
        then have e3: "e \<in> set (active ?q3)"
          using s4 by blast
        have ncc: "snd e \<noteq> ?cc"
          using n4 q4 by force
        from ControlListWidget_set_model_active [OF guard(2) e3]
        consider (rows) "endpoints_in ({m_self model} \<union> set (m_control model)
                            \<union> {k. next_obj ?q2 \<le> k}) (snd e)"
          | (cl) "endpoints_in {m_self model, cl_self (gw_control_list w)} (snd e)"
          | (q2) "e \<in> set (active ?q2)"
                 "fst e \<notin> set (recorded (cl_model_connections (gw_control_list w)))"
          by blast
        then show ?thesis
        proof cases
          case rows
          then have "endpoints_in ({m_self model} \<union> set (m_control model)
                            \<union> {k. next_obj q \<le> k}) (snd e)"
            by (simp add: subscribe_all_def)
          then show ?thesis using row by blast
        next
          case cl
          then have "endpoints_in (set (own_objects w) \<union> set (model_objects model)) (snd e)"
            by (auto simp: endpoints_in_def own_objects_def model_objects_def)
          then show ?thesis by (rule new)
        next
          case q2
          from in_subscribe_all_within [OF q2(1) GenerationWidget_model_bindings_within]
          consider (gw) "endpoints_in {gw_self w, m_self model} (snd e)"
            | (q1) "e \<in> set (active ?q1)"
            by blast
          then show ?thesis
          proof cases
            case gw
            then have "endpoints_in (set (own_objects w) \<union> set (model_objects model)) (snd e)"
              by (auto simp: endpoints_in_def own_objects_def model_objects_def)
            then show ?thesis by (rule new)
          next
            case q1
            then have "e \<in> set (active q)" "fst e \<notin> set (recorded_handles w)"
              using q2(2) before(2) by (auto simp: recorded_handles_def)
            with H ncc show ?thesis by blast
          qed
        qed
      qed
    qed
  qed
  then have "links (own_objects w) old ?q6 = []"
    by (auto simp: links_def filter_empty_conv)
  with res show ?thesis by simp
qed

lemma Let_weak_cong': "a = b \<Longrightarrow> Let a t = Let b t"
  by simp

lemma bind_weak_cong: "x = y \<Longrightarrow> Option.bind x f = Option.bind y f"
  by simp

lemma disconnect_all_pair:
  "disconnect_all bs q
     = (failed_positions bs q,
        q\<lparr>active := filter (\<lambda>e. fst e \<notin> set (recorded bs)) (active q)\<rparr>)"
  using disconnect_all_closed [of bs q]
  by (simp add: failed_positions_def prod_eq_iff)

lemma connect_closed: "connect s q = (next_handle q, subscribe_all [s] q)"
  by (simp add: connect_def subscribe_all_def)

lemma subscribe_all_Cons:
  "subscribe_all (s # ss) q
     = subscribe_all ss
         (q\<lparr>active := active q @ [(next_handle q, s)], next_handle := Suc (next_handle q)\<rparr>)"
  using subscribe_all_append [of ss "[s]" q]
  by (simp add: subscribe_all_def)

lemmas eval_rules = GenerationWidget_init_def GenerationWidget_set_model_def
  ControlListWidget_set_model_def ControlListWidget_init_def QueueWidget_init_def
  QueueWidget_set_jobs_def HistoryWidget_init_def HistoryWidget_set_jobs_def
  in_order_closed establish_closed disconnect_all_pair remove_all_widgets_closed
  add_widget_def ControlWidget_init_closed connect_closed disconnect_slot_def
  subscribe_all_Cons subscribe_all_Nil recorded_def rebuild_def
  GenerationWidget_model_bindings_def ControlListWidget_connections_def
  HistoryWidget_connections_def ControlWidget_subscriptions_def
  connection_def bind_property_def bind_widget_def bind_combo_def count_changed_update_def

lemma example_init: "GenerationWidget_init example_root start_table = state_0"
  by (simp add: eval_rules example_root_def start_table_def state_0_def Let_def
      del: in_order.simps establish.simps
      cong: Let_weak_cong' bind_weak_cong prod.case_cong_weak option.case_cong_weak list.case_cong_weak)

lemma example_switch_A: "GenerationWidget_set_model model_A state_0 = Some state_A"
  by (simp add: eval_rules model_A_def state_0_def state_A_def Let_def
      del: in_order.simps establish.simps
      cong: Let_weak_cong' bind_weak_cong prod.case_cong_weak option.case_cong_weak list.case_cong_weak)

lemma remove_first_keeps:
  "remove_first s es = Some es' \<Longrightarrow> e \<in> set es \<Longrightarrow> snd e \<noteq> s \<Longrightarrow> e \<in> set es'"
  by (induction es arbitrary: es') (auto split: if_splits)

lemma in_disconnect_all:
  "e \<in> set (active (snd (disconnect_all bs q)))
     \<longleftrightarrow> e \<in> set (active q) \<and> fst e \<notin> set (recorded bs)"
  by (simp add: disconnect_all_closed)

lemma subscribe_all_keeps: "e \<in> set (active q) \<Longrightarrow> e \<in> set (active (subscribe_all subs q))"
  by (simp add: active_subscribe_all)

lemma ControlListWidget_set_model_keeps:
  assumes "e \<in> set (active q)" "fst e \<notin> set (recorded (cl_model_connections w))"
  shows "e \<in> set (active (snd (ControlListWidget_set_model model (w, q))))"
proof (cases "cl_model w = m_self model")
  case True
  with assms(1) show ?thesis
    by (simp add: ControlListWidget_set_model_def)
next
  case False
  show ?thesis
    unfolding ControlListWidget_set_model_closed [OF False]
    using assms by (simp add: active_subscribe_all)
qed

lemma QueueWidget_set_jobs_keeps:
  assumes "QueueWidget_set_jobs jobs (w, q) = Some (w', q')"
    and "e \<in> set (active q)" "snd e \<noteq> count_changed_update (qw_jobs w) (qw_self w)"
  shows "e \<in> set (active q')"
proof -
  from assms(1) obtain es where r:
    "remove_first (count_changed_update (qw_jobs w) (qw_self w)) (active q) = Some es"
    and q': "q' = subscribe_all [count_changed_update (jq_self jobs) (qw_self w)] (q\<lparr>active := es\<rparr>)"
    by (auto simp: QueueWidget_set_jobs_def disconnect_slot_def connect_subscribe_all
        split: Option.bind_splits)
  from remove_first_keeps [OF r assms(2,3)] show ?thesis
    by (simp add: q' active_subscribe_all)
qed

lemma HistoryWidget_set_jobs_keeps:
  assumes "e \<in> set (active q)" "fst e \<notin> set (recorded (hw_connections w))"
  shows "e \<in> set (active (snd (HistoryWidget_set_jobs jobs (w, q))))"
  unfolding HistoryWidget_set_jobs_closed
  using assms by (simp add: active_subscribe_all)

lemma GenerationWidget_set_model_keeps:
  assumes r: "GenerationWidget_set_model model (w, q) = Some (w', q')"
    and e: "e \<in> set (active q)" "fst e \<notin> set (recorded_handles w)"
           "snd e \<noteq> queue_subscription w"
  shows "e \<in> set (active q')"
proof (cases "gw_model w = m_self model")
  case True
  with r e(1) show ?thesis
    by (simp add: GenerationWidget_set_model_def)
next
  case False
  let ?q1 = "snd (disconnect_all (gw_model_bindings w) q)"
  let ?q2 = "snd (in_order (GenerationWidget_model_bindings (gw_self w) (m_self model)) ?q1)"
  let ?q3 = "snd (ControlListWidget_set_model model (gw_control_list w, ?q2))"
  from r False obtain qb q4 where
    qb: "QueueWidget_set_jobs (m_jobs model) (gw_queue_button w, ?q3) = Some (qb, q4)"
    and q': "q' = snd (HistoryWidget_set_jobs (m_jobs model) (gw_history w, q4))"
    by (auto simp: GenerationWidget_set_model_def split_beta Let_def
        split: Option.bind_splits simp del: in_order.simps)
  have "e \<in> set (active ?q1)"
    using e by (simp add: in_disconnect_all recorded_handles_def)
  then have "e \<in> set (active ?q2)"
    by (simp add: in_order_closed subscribe_all_keeps del: in_order.simps)
  then have "e \<in> set (active ?q3)"
    using e(2) by (intro ControlListWidget_set_model_keeps) (simp_all add: recorded_handles_def)
  then have "e \<in> set (active q4)"
    using QueueWidget_set_jobs_keeps [OF qb] e(3) by (simp add: queue_subscription_def)
  then show ?thesis
    unfolding q'
    using e(2) by (intro HistoryWidget_set_jobs_keeps) (simp_all add: recorded_handles_def)
qed

lemma state_A_facts:
  "gw_model (fst state_A) \<noteq> m_self model_B"
  "cl_model (gw_control_list (fst state_A)) \<noteq> m_self model_B"
  "filter (\<lambda>e. snd e = queue_subscription (fst state_A)) (active (snd state_A))
     = [(143, queue_subscription (fst state_A))]"
  "143 \<notin> set (recorded_handles (fst state_A))"
  "distinct (own_objects (fst state_A))"
  "set (own_objects (fst state_A)) \<inter> set (model_objects model_A) = {}"
  "set (model_objects model_B) \<inter> set (model_objects model_A) = {}"
  "set (model_objects model_B) \<inter> set (own_objects (fst state_A)) = {}"
  "\<forall>x \<in> set (own_objects (fst state_A)). x < next_obj (snd state_A)"
  by (simp_all add: state_A_def model_A_def model_B_def own_objects_def model_objects_def
      recorded_handles_def recorded_def queue_subscription_def count_changed_update_def)

lemma state_A_links_recorded:
  "\<forall>e \<in> set (active (snd state_A)).
     touches (own_objects (fst state_A)) (snd e) \<and> touches (model_objects model_A) (snd e)
       \<longrightarrow> fst e \<in> set (recorded_handles (fst state_A))
           \<or> snd e = queue_subscription (fst state_A)"
  by (simp add: state_A_def model_A_def own_objects_def model_objects_def touches_def
      recorded_handles_def recorded_def queue_subscription_def count_changed_update_def)

lemma state_A_row:
  "(132, \<lparr> sub_sender = 1002, sub_signal = ''strength_changed'', sub_receiver = 16,
           sub_slot = ''lambda x: strength_spin.setValue(int(x * 100))'' \<rparr>)
     \<in> set (active (snd state_A))"
  "132 \<notin> set (recorded_handles (fst state_A))"
  "\<lparr> sub_sender = 1002, sub_signal = ''strength_changed'', sub_receiver = 16,
           sub_slot = ''lambda x: strength_spin.setValue(int(x * 100))'' \<rparr>
     \<noteq> queue_subscription (fst state_A)"
  by (simp_all add: state_A_def recorded_handles_def recorded_def queue_subscription_def
      count_changed_update_def)

lemma state_A_switch:
  "\<exists>w' q'. GenerationWidget_set_model model_B state_A = Some (w', q')
      \<and> gw_model w' = m_self model_B
      \<and> links (own_objects (fst state_A)) (model_objects model_A) q' = []"
  using generation_no_links [of "fst state_A" model_B "snd state_A" "model_objects model_A" 143]
    state_A_facts state_A_links_recorded
  by simp

text \<open>
  Claim C2 asks that a switch of models leaves no subscription to the previous model.
  The setters disconnect what the binding lists record and the queue button's
  subscription (\<open>state_A_switch\<close>), but not what a row of the control list subscribed to:
  \<^verbatim>\<open>_remove_widget\<close> takes the row out of \<^verbatim>\<open>_controls\<close> and hands it to \<^verbatim>\<open>deleteLater()\<close>,
  and \<^verbatim>\<open>ControlWidget\<close> keeps no handle of the connections its constructor made. After
  the widget of the example has switched from \<open>model_A\<close>, which has one control layer,
  to \<open>model_B\<close>, the subscription of the row's lambda to \<^verbatim>\<open>strength_changed\<close> of that layer
  is still active, so a later change of the layer's strength calls
  \<^verbatim>\<open>strength_spin.setValue\<close> of the removed row.
\<close>

theorem switch_keeps_row_subscription:
  "(132, \<lparr> sub_sender = 1002, sub_signal = ''strength_changed'', sub_receiver = 16,
           sub_slot = ''lambda x: strength_spin.setValue(int(x * 100))'' \<rparr>)
     \<in> set (subscriptions_to (model_objects model_A) switched)"
proof -
  from state_A_switch obtain w' q'
    where r: "GenerationWidget_set_model model_B (fst state_A, snd state_A) = Some (w', q')"
    by auto
  have s: "switched = Some (w', q')"
    using r by (simp add: switched_def example_init example_switch_A)
  have "(132, \<lparr> sub_sender = 1002, sub_signal = ''strength_changed'', sub_receiver = 16,
           sub_slot = ''lambda x: strength_spin.setValue(int(x * 100))'' \<rparr>) \<in> set (active q')"
    using GenerationWidget_set_model_keeps [OF r, of "(132, \<lparr> sub_sender = 1002,
           sub_signal = ''strength_changed'', sub_receiver = 16,
           sub_slot = ''lambda x: strength_spin.setValue(int(x * 100))'' \<rparr>)"] state_A_row
    by simp
  then show ?thesis
    by (simp add: s subscriptions_to_def touches_def model_objects_def model_A_def)
qed

section \<open>Properties of the model setters\<close>

text \<open>
  Claim C7. The binding list of a workspace widget is rebuilt only when the model
  changes: for \<^verbatim>\<open>GenerationWidget\<close>, \<^verbatim>\<open>UpscaleWidget\<close>, \<^verbatim>\<open>LiveWidget\<close> and
  \<^verbatim>\<open>ControlListWidget\<close>, assigning the model the widget already holds returns the widget
  and the subscription table exactly as they were.
\<close>

theorem set_model_same_model:
  "(gw_model g = m_self model \<longrightarrow> GenerationWidget_set_model model (g, q) = Some (g, q))
   \<and> (uw_model u = m_self model \<longrightarrow> UpscaleWidget_set_model model (u, q) = Some (u, q))
   \<and> (lw_model l = m_self model \<longrightarrow> LiveWidget_set_model model (l, q) = (l, q))
   \<and> (cl_model c = m_self model \<longrightarrow> ControlListWidget_set_model model (c, q) = (c, q))"
  by (simp add: GenerationWidget_set_model_def UpscaleWidget_set_model_def
      LiveWidget_set_model_def ControlListWidget_set_model_def)

theorem set_model_same_model_witness:
  "GenerationWidget_set_model model_A state_A = Some state_A
   \<and> UpscaleWidget_set_model model_A (example_upscale, snd state_A)
       = Some (example_upscale, snd state_A)
   \<and> LiveWidget_set_model model_A (example_live, snd state_A) = (example_live, snd state_A)
   \<and> ControlListWidget_set_model model_A (gw_control_list (fst state_A), snd state_A)
       = (gw_control_list (fst state_A), snd state_A)"
proof -
  have "gw_model (fst state_A) = m_self model_A"
       "uw_model example_upscale = m_self model_A"
       "lw_model example_live = m_self model_A"
       "cl_model (gw_control_list (fst state_A)) = m_self model_A"
    by (simp_all add: state_A_def model_A_def example_upscale_def example_live_def)
  with set_model_same_model [of "fst state_A" model_A "snd state_A" example_upscale
         example_live "gw_control_list (fst state_A)"]
  show ?thesis by simp
qed

text \<open>
  Claim C9. \<^verbatim>\<open>ImageDiffusionWidget.update\<close> shows the welcome widget whenever there is no
  model for the active document or the connection is disconnected, connecting or in
  error, and touches nothing else; so when it turns the stack from the welcome widget to
  a workspace widget, there is a model and the connection is in none of these states.
\<close>

theorem update_shows_welcome:
  "(model = None \<or> state = disconnected \<or> state = connecting \<or> state = error \<longrightarrow>
      update model state (w, q) = Some (w\<lparr>idw_current := Welcome\<rparr>, q))
   \<and> (update model state (w, q) = Some (w', q') \<and> idw_current w' \<noteq> Welcome
        \<and> idw_current w = Welcome \<longrightarrow>
        model \<noteq> None \<and> state \<noteq> disconnected \<and> state \<noteq> connecting \<and> state \<noteq> error)"
  by (auto simp: update_def)

theorem update_shows_welcome_witness:
  "update None connected example_dock
     = Some ((fst example_dock)\<lparr>idw_current := Welcome\<rparr>, snd example_dock)
   \<and> update (Some model_A) error example_dock
     = Some ((fst example_dock)\<lparr>idw_current := Welcome\<rparr>, snd example_dock)
   \<and> idw_current (fst example_dock) = Welcome
   \<and> idw_current (fst (the (update (Some (model_A\<lparr>m_workspace := live\<rparr>)) connected
         example_dock))) = Live
   \<and> connected \<noteq> disconnected \<and> connected \<noteq> connecting \<and> connected \<noteq> error"
proof -
  obtain w q where wq: "example_dock = (w, q)" by (cases example_dock)
  let ?m = "model_A\<lparr>m_workspace := live\<rparr>"
  have s: "update (Some ?m) connected (w, q)
        = Some (w\<lparr>idw_live := fst (LiveWidget_set_model ?m (idw_live w, q)),
                  idw_current := Live\<rparr>,
                snd (LiveWidget_set_model ?m (idw_live w, q)))"
    by (simp add: update_def split_beta Let_def)
  have c: "idw_current w = Welcome"
    using wq by (auto simp: example_dock_def)
  have a: "update None connected (w, q) = Some (w\<lparr>idw_current := Welcome\<rparr>, q)"
    using update_shows_welcome [of None connected w q] by blast
  have b: "update (Some model_A) error (w, q) = Some (w\<lparr>idw_current := Welcome\<rparr>, q)"
    using update_shows_welcome [of "Some model_A" error w q] by blast
  have d: "idw_current (fst (the (update (Some ?m) connected (w, q)))) = Live"
    unfolding s by simp
  show ?thesis
    unfolding wq fst_conv snd_conv
    using a b c d by (intro conjI) simp_all
qed

section \<open>Properties of the widget value setters\<close>

text \<open>
  Claim C4. Assigning to \<^verbatim>\<open>TextPromptWidget.text\<close>, \<^verbatim>\<open>StrengthWidget.value\<close> or
  \<^verbatim>\<open>StyleSelectWidget.value\<close> a value equal to the one the property holds does nothing: the
  widget, with its stored values and the list of values its change signal has emitted, is
  returned as it was, at any depth of calls.
\<close>

theorem setters_ignore_equal_value:
  "TextPromptWidget_set_text (TextPromptWidget_text t) t = t
   \<and> StrengthWidget_set_value depth (StrengthWidget_value s) s = Some s
   \<and> StyleSelectWidget_set_value (ss_value y) y = Some y"
  by (simp add: TextPromptWidget_set_text_def StrengthWidget_set_value_def
      StyleSelectWidget_set_value_def)

section \<open>Properties of StrengthWidget.notify_changed\<close>

lemma notify_emits:
  assumes "notify_changed depth value w = Some w'"
  shows "sw_value_changed w' \<noteq> []
     \<and> last (sw_value_changed w') = fdiv (of_int (sl_value (sw_slider w'))) 100"
proof (cases depth)
  case 0
  with assms show ?thesis by simp
next
  case (Suc d)
  with assms show ?thesis
    by (auto simp: StrengthWidget_value_def split: bind_splits)
qed

lemma notify_in_range:
  assumes "sl_minimum (sw_slider w) \<le> value" "value \<le> sl_maximum (sw_slider w)"
    and "sp_minimum (sw_input w) \<le> value" "value \<le> sp_maximum (sw_input w)"
  shows "\<exists>w'. notify_changed (Suc (Suc (Suc depth))) value w = Some w'
           \<and> sl_value (sw_slider w') = value \<and> sp_value (sw_input w') = value"
  using assms
  by (auto simp: bound_def StrengthWidget_value_def Let_def)

lemma notify_above_range:
  assumes "sl_minimum (sw_slider w) \<le> sl_value (sw_slider w)"
    and "sl_value (sw_slider w) \<le> sl_maximum (sw_slider w)"
    and "sl_maximum (sw_slider w) < value"
    and "sp_value (sw_input w) = value"
    and "sp_minimum (sw_input w) \<le> value" "value \<le> sp_maximum (sw_input w)"
  shows "\<exists>w'. notify_changed (Suc (Suc (Suc (Suc depth)))) value w = Some w'
           \<and> sl_value (sw_slider w') = sl_maximum (sw_slider w)
           \<and> sp_value (sw_input w') = value"
  using assms
  by (auto simp: bound_def StrengthWidget_value_def Let_def)

lemma notify_below_range:
  assumes "sl_minimum (sw_slider w) \<le> sl_value (sw_slider w)"
    and "sl_value (sw_slider w) \<le> sl_maximum (sw_slider w)"
    and "value < sl_minimum (sw_slider w)"
    and "sp_value (sw_input w) = value"
    and "sp_minimum (sw_input w) \<le> value" "value \<le> sp_maximum (sw_input w)"
  shows "\<exists>w'. notify_changed (Suc (Suc (Suc (Suc depth)))) value w = Some w'
           \<and> sl_value (sw_slider w') = sl_minimum (sw_slider w)
           \<and> sp_value (sw_input w') = value"
  using assms
  by (auto simp: bound_def StrengthWidget_value_def Let_def)

lemma four_deep: "4 \<le> depth \<Longrightarrow> \<exists>d. depth = Suc (Suc (Suc (Suc d)))"
  by (rule exI [of _ "depth - 4"]) arith

lemma three_deep: "3 \<le> depth \<Longrightarrow> \<exists>d. depth = Suc (Suc (Suc d))"
  by (rule exI [of _ "depth - 3"]) arith

text \<open>
  Claim C8, amended. Whenever \<^verbatim>\<open>notify_changed\<close> returns, \<^verbatim>\<open>value_changed\<close> has been emitted
  and the last value emitted is the slider's value divided by 100. When the value that
  changed lies in the range of the slider and in the range of the spin input, the call
  returns (three nested calls are enough) and the slider and the spin input both hold
  that value. When the value was typed into the spin input and lies above the slider's
  range, the call returns (four nested calls are enough), the slider holds its maximum
  and the spin input the typed value; below the slider's range the slider holds its
  minimum.
\<close>

theorem notify_changed_emits_and_syncs:
  "(notify_changed depth value w = Some w' \<longrightarrow>
      sw_value_changed w' \<noteq> []
      \<and> last (sw_value_changed w') = fdiv (of_int (sl_value (sw_slider w'))) 100)
   \<and> (3 \<le> depth
        \<and> sl_minimum (sw_slider w) \<le> value \<and> value \<le> sl_maximum (sw_slider w)
        \<and> sp_minimum (sw_input w) \<le> value \<and> value \<le> sp_maximum (sw_input w) \<longrightarrow>
      (\<exists>r. notify_changed depth value w = Some r
           \<and> sl_value (sw_slider r) = value \<and> sp_value (sw_input r) = value))
   \<and> (4 \<le> depth
        \<and> sl_minimum (sw_slider w) \<le> sl_value (sw_slider w)
        \<and> sl_value (sw_slider w) \<le> sl_maximum (sw_slider w)
        \<and> sl_maximum (sw_slider w) < value \<and> sp_value (sw_input w) = value
        \<and> sp_minimum (sw_input w) \<le> value \<and> value \<le> sp_maximum (sw_input w) \<longrightarrow>
      (\<exists>r. notify_changed depth value w = Some r
           \<and> sl_value (sw_slider r) = sl_maximum (sw_slider w)
           \<and> sp_value (sw_input r) = value))
   \<and> (4 \<le> depth
        \<and> sl_minimum (sw_slider w) \<le> sl_value (sw_slider w)
        \<and> sl_value (sw_slider w) \<le> sl_maximum (sw_slider w)
        \<and> value < sl_minimum (sw_slider w) \<and> sp_value (sw_input w) = value
        \<and> sp_minimum (sw_input w) \<le> value \<and> value \<le> sp_maximum (sw_input w) \<longrightarrow>
      (\<exists>r. notify_changed depth value w = Some r
           \<and> sl_value (sw_slider r) = sl_minimum (sw_slider w)
           \<and> sp_value (sw_input r) = value))"
proof (intro conjI impI)
  assume "notify_changed depth value w = Some w'"
  then show "sw_value_changed w' \<noteq> []" by (simp add: notify_emits)
next
  assume "notify_changed depth value w = Some w'"
  then show "last (sw_value_changed w') = fdiv (of_int (sl_value (sw_slider w'))) 100"
    by (simp add: notify_emits)
next
  assume a: "3 \<le> depth
        \<and> sl_minimum (sw_slider w) \<le> value \<and> value \<le> sl_maximum (sw_slider w)
        \<and> sp_minimum (sw_input w) \<le> value \<and> value \<le> sp_maximum (sw_input w)"
  then obtain d where "depth = Suc (Suc (Suc d))" using three_deep by blast
  with a notify_in_range [of w "value" d]
  show "\<exists>r. notify_changed depth value w = Some r
           \<and> sl_value (sw_slider r) = value \<and> sp_value (sw_input r) = value"
    by simp
next
  assume a: "4 \<le> depth
        \<and> sl_minimum (sw_slider w) \<le> sl_value (sw_slider w)
        \<and> sl_value (sw_slider w) \<le> sl_maximum (sw_slider w)
        \<and> sl_maximum (sw_slider w) < value \<and> sp_value (sw_input w) = value
        \<and> sp_minimum (sw_input w) \<le> value \<and> value \<le> sp_maximum (sw_input w)"
  then obtain d where "depth = Suc (Suc (Suc (Suc d)))" using four_deep by blast
  with a notify_above_range [of w "value" d]
  show "\<exists>r. notify_changed depth value w = Some r
           \<and> sl_value (sw_slider r) = sl_maximum (sw_slider w)
           \<and> sp_value (sw_input r) = value"
    by simp
next
  assume a: "4 \<le> depth
        \<and> sl_minimum (sw_slider w) \<le> sl_value (sw_slider w)
        \<and> sl_value (sw_slider w) \<le> sl_maximum (sw_slider w)
        \<and> value < sl_minimum (sw_slider w) \<and> sp_value (sw_input w) = value
        \<and> sp_minimum (sw_input w) \<le> value \<and> value \<le> sp_maximum (sw_input w)"
  then obtain d where "depth = Suc (Suc (Suc (Suc d)))" using four_deep by blast
  with a notify_below_range [of w "value" d]
  show "\<exists>r. notify_changed depth value w = Some r
           \<and> sl_value (sw_slider r) = sl_minimum (sw_slider w)
           \<and> sp_value (sw_input r) = value"
    by simp
qed

theorem notify_changed_emits_and_syncs_witness:
  "(\<exists>r. notify_changed 1000 35 (typed 35 (StrengthWidget_init (20, 50))) = Some r
       \<and> sl_value (sw_slider r) = 35 \<and> sp_value (sw_input r) = 35
       \<and> sw_value_changed r \<noteq> []
       \<and> last (sw_value_changed r) = fdiv (of_int (sl_value (sw_slider r))) 100)
   \<and> (\<exists>r. notify_changed 1000 80 (typed 80 (StrengthWidget_init (20, 50))) = Some r
       \<and> sl_value (sw_slider r) = 50 \<and> sp_value (sw_input r) = 80)
   \<and> (\<exists>r. notify_changed 1000 10 (typed 10 (StrengthWidget_init (20, 50))) = Some r
       \<and> sl_value (sw_slider r) = 20 \<and> sp_value (sw_input r) = 10)"
proof -
  have a: "\<exists>r. notify_changed 1000 35 (typed 35 (StrengthWidget_init (20, 50))) = Some r
       \<and> sl_value (sw_slider r) = 35 \<and> sp_value (sw_input r) = 35"
    using notify_changed_emits_and_syncs
      [of 1000 35 "typed 35 (StrengthWidget_init (20, 50))" "StrengthWidget_init (20, 50)"]
    by (simp add: typed_def StrengthWidget_init_def bound_def)
  then obtain r where r: "notify_changed 1000 35 (typed 35 (StrengthWidget_init (20, 50))) = Some r"
    "sl_value (sw_slider r) = 35" "sp_value (sw_input r) = 35"
    by blast
  have "notify_changed 1000 35 (typed 35 (StrengthWidget_init (20, 50))) = Some r \<longrightarrow>
      sw_value_changed r \<noteq> []
      \<and> last (sw_value_changed r) = fdiv (of_int (sl_value (sw_slider r))) 100"
    using notify_changed_emits_and_syncs
      [of 1000 35 "typed 35 (StrengthWidget_init (20, 50))" r]
    by (rule conjunct1)
  with r(1) have e: "sw_value_changed r \<noteq> []
      \<and> last (sw_value_changed r) = fdiv (of_int (sl_value (sw_slider r))) 100"
    by (rule rev_mp)
  have a': "\<exists>r. notify_changed 1000 35 (typed 35 (StrengthWidget_init (20, 50))) = Some r
       \<and> sl_value (sw_slider r) = 35 \<and> sp_value (sw_input r) = 35
       \<and> sw_value_changed r \<noteq> []
       \<and> last (sw_value_changed r) = fdiv (of_int (sl_value (sw_slider r))) 100"
    by (rule exI [of _ r]) (intro conjI r conjunct1 [OF e] conjunct2 [OF e])
  have b: "\<exists>r. notify_changed 1000 80 (typed 80 (StrengthWidget_init (20, 50))) = Some r
       \<and> sl_value (sw_slider r) = 50 \<and> sp_value (sw_input r) = 80"
    using notify_changed_emits_and_syncs
      [of 1000 80 "typed 80 (StrengthWidget_init (20, 50))" "StrengthWidget_init (20, 50)"]
    by (simp add: typed_def StrengthWidget_init_def bound_def)
  have c: "\<exists>r. notify_changed 1000 10 (typed 10 (StrengthWidget_init (20, 50))) = Some r
       \<and> sl_value (sw_slider r) = 20 \<and> sp_value (sw_input r) = 10"
    using notify_changed_emits_and_syncs
      [of 1000 10 "typed 10 (StrengthWidget_init (20, 50))" "StrengthWidget_init (20, 50)"]
    by (simp add: typed_def StrengthWidget_init_def bound_def)
  show ?thesis
    by (rule conjI [OF a' conjI [OF b c]])
qed

text \<open>
  Claim C8 as stated fails. The upscale workspace creates its strength widget with the
  slider range 20 to 50, while the spin input accepts 1 to 100. Typing 80 into the input leaves the slider at 50 and the
  input at 80; \<^verbatim>\<open>value_changed\<close> is emitted four times with 50 / 100.
\<close>

theorem notify_changed_outside_slider_range:
  "notify_changed 5 80 (typed 80 (StrengthWidget_init (20, 50)))
     = Some \<lparr> sw_slider = \<lparr> sl_minimum = 20, sl_maximum = 50, sl_value = 50 \<rparr>,
              sw_input = \<lparr> sp_minimum = 1, sp_maximum = 100, sp_value = 80 \<rparr>,
              sw_value_changed = [fdiv 50 100, fdiv 50 100, fdiv 50 100, fdiv 50 100] \<rparr>"
  by (simp add: numeral_eq_Suc typed_def StrengthWidget_init_def bound_def
      StrengthWidget_value_def Let_def)

section \<open>Evaluating the float operations\<close>

text \<open>
  On quotients of numerals the roundings are integer divisions, so that \<open>simp\<close> computes
  the result of a float operation.
\<close>

lemma round_half_even_quotient:
  assumes "0 < b"
  shows "round_half_even (of_int a / of_int b) = round_quotient a b"
proof -
  have f: "\<lfloor>(of_int a / of_int b :: rat)\<rfloor> = a div b"
    by (simp add: floor_divide_of_int_eq)
  have "a = a div b * b + a mod b" by simp
  then have "(of_int a :: rat) = of_int (a div b * b + a mod b)" by (rule arg_cong)
  then have "(of_int a :: rat) = of_int (a div b) * of_int b + of_int (a mod b)"
    by (simp only: of_int_add of_int_mult)
  then have "(of_int a / of_int b :: rat) = of_int (a div b) + of_int (a mod b) / of_int b"
    using assms by (simp add: field_simps)
  then have r: "(of_int a / of_int b :: rat) - of_int (a div b) = of_int (a mod b) / of_int b"
    by simp
  have lt: "(of_int (a mod b) / of_int b :: rat) < 1 / 2 \<longleftrightarrow> 2 * (a mod b) < b"
  proof -
    have "(of_int (a mod b) / of_int b :: rat) < 1 / 2 \<longleftrightarrow> (of_int (2 * (a mod b)) :: rat) < of_int b"
      using assms by (simp add: field_simps)
    then show ?thesis by (simp only: of_int_less_iff)
  qed
  have gt: "1 / 2 < (of_int (a mod b) / of_int b :: rat) \<longleftrightarrow> b < 2 * (a mod b)"
  proof -
    have "1 / 2 < (of_int (a mod b) / of_int b :: rat) \<longleftrightarrow> (of_int b :: rat) < of_int (2 * (a mod b))"
      using assms by (simp add: field_simps)
    then show ?thesis by (simp only: of_int_less_iff)
  qed
  show ?thesis
    unfolding round_half_even_def round_quotient_def Let_def f r lt gt ..
qed

lemma binade_quotient:
  assumes "0 < a" "0 < b"
  shows "binade (of_int a / of_int b)
     = (if b \<le> a then bitlen (a div b) - 1 else - bitlen (- ((- b) div a) - 1))"
proof -
  have le: "1 \<le> (of_int a / of_int b :: rat) \<longleftrightarrow> b \<le> a"
  proof -
    have "1 \<le> (of_int a / of_int b :: rat) \<longleftrightarrow> (of_int b :: rat) \<le> of_int a"
      using assms by (simp add: field_simps)
    then show ?thesis by (simp only: of_int_le_iff)
  qed
  have f: "\<lfloor>(of_int a / of_int b :: rat)\<rfloor> = a div b"
    by (simp add: floor_divide_of_int_eq)
  have "\<lceil>(1 / (of_int a / of_int b) :: rat)\<rceil> = \<lceil>(of_int b / of_int a :: rat)\<rceil>"
    by simp
  also have "\<dots> = - \<lfloor>(of_int (- b) / of_int a :: rat)\<rfloor>"
    by (simp add: ceiling_def)
  also have "\<dots> = - ((- b) div a)"
    by (simp only: floor_divide_of_int_eq)
  finally have c: "\<lceil>(1 / (of_int a / of_int b) :: rat)\<rceil> = - ((- b) div a)" .
  show ?thesis
    unfolding binade_def le f c ..
qed

lemma to_double_quotient:
  assumes "0 < a" "0 < b"
  shows "to_double (of_int a / of_int b)
     = (let d = (if b \<le> a then bitlen (a div b) - 1 else - bitlen (- ((- b) div a) - 1)) - 52
        in if 0 \<le> d then of_int (round_quotient a (b * 2 ^ nat d)) * 2 ^ nat d
           else of_int (round_quotient (a * 2 ^ nat (- d)) b) / 2 ^ nat (- d))"
proof -
  define d where "d = (if b \<le> a then bitlen (a div b) - 1 else - bitlen (- ((- b) div a) - 1)) - 52"
  have pos: "0 < (of_int a / of_int b :: rat)" using assms by simp
  have "(of_int a / of_int b :: rat) * 2 ^ k = of_int (a * 2 ^ k) / of_int b" for k
    by simp
  then have up: "round_half_even ((of_int a / of_int b) * 2 ^ k) = round_quotient (a * 2 ^ k) b" for k
    using round_half_even_quotient [OF assms(2), of "a * 2 ^ k"] by simp
  have "(of_int a / of_int b :: rat) / 2 ^ k = of_int a / of_int (b * 2 ^ k)" for k
    by simp
  moreover have "0 < b * 2 ^ k" for k using assms by simp
  ultimately have down: "round_half_even ((of_int a / of_int b) / 2 ^ k) = round_quotient a (b * 2 ^ k)" for k
    using round_half_even_quotient [of "b * 2 ^ k" a] by simp
  have "to_double (of_int a / of_int b) = round_at d (of_int a / of_int b)"
    using pos assms unfolding to_double_def d_def binade_quotient [OF assms] by simp
  also have "\<dots> = (if 0 \<le> d then of_int (round_quotient a (b * 2 ^ nat d)) * 2 ^ nat d
           else of_int (round_quotient (a * 2 ^ nat (- d)) b) / 2 ^ nat (- d))"
    unfolding round_at_def up down ..
  finally show ?thesis unfolding d_def Let_def .
qed

lemma floor_numeral_quotient: "\<lfloor>(numeral a :: rat) / numeral b\<rfloor> = numeral a div numeral b"
  using floor_divide_of_int_eq [of "numeral a" "numeral b", where ?'a = rat] by simp

lemma round_half_even_numeral_quotient:
  "round_half_even (numeral a / numeral b) = round_quotient (numeral a) (numeral b)"
  using round_half_even_quotient [of "numeral b" "numeral a"] by simp

lemma round_half_even_numeral: "round_half_even (numeral a) = numeral a"
  by (simp add: round_half_even_def)

lemma round_half_even_0: "round_half_even 0 = 0"
  by (simp add: round_half_even_def)

lemma round_half_even_1: "round_half_even 1 = 1"
  by (simp add: round_half_even_def)

lemma to_double_unit_quotient:
  "to_double (1 / numeral b)
     = (let d = (if (numeral b :: int) \<le> 1 then bitlen (1 div numeral b) - 1
                 else - bitlen (- ((- numeral b) div 1) - 1)) - 52
        in if 0 \<le> d then of_int (round_quotient 1 (numeral b * 2 ^ nat d)) * 2 ^ nat d
           else of_int (round_quotient (1 * 2 ^ nat (- d)) (numeral b)) / 2 ^ nat (- d))"
  using to_double_quotient [of 1 "numeral b"] by simp

lemma to_double_numeral_quotient:
  "to_double (numeral a / numeral b)
     = (let d = (if (numeral b :: int) \<le> numeral a then bitlen (numeral a div numeral b) - 1
                 else - bitlen (- ((- numeral b) div numeral a) - 1)) - 52
        in if 0 \<le> d then of_int (round_quotient (numeral a) (numeral b * 2 ^ nat d)) * 2 ^ nat d
           else of_int (round_quotient (numeral a * 2 ^ nat (- d)) (numeral b)) / 2 ^ nat (- d))"
  using to_double_quotient [of "numeral a" "numeral b"] by simp

lemma to_double_numeral:
  "to_double (numeral a)
     = (let d = bitlen (numeral a) - 1 - 52
        in if 0 \<le> d then of_int (round_quotient (numeral a) (2 ^ nat d)) * 2 ^ nat d
           else of_int (round_quotient (numeral a * 2 ^ nat (- d)) 1) / 2 ^ nat (- d))"
  using to_double_quotient [of "numeral a" 1] by (simp add: Let_def)

lemma to_double_0: "to_double 0 = 0" by (simp add: to_double_def)

lemma bitlen_1: "bitlen 1 = 1"
  by (subst compute_bitlen) simp

lemma to_double_1: "to_double 1 = 1"
  using to_double_quotient [of 1 1] by (simp add: round_quotient_def Let_def bitlen_1)

lemma bitlen_Bit0: "bitlen (numeral (Num.Bit0 n)) = bitlen (numeral n) + 1"
  by (subst compute_bitlen) simp

lemma bitlen_Bit1: "bitlen (numeral (Num.Bit1 n)) = bitlen (numeral n) + 1"
  by (subst compute_bitlen) simp

lemma bitlen_One: "bitlen (numeral Num.One) = 1"
  using bitlen_1 by simp

lemmas float_eval = round_half_even_numeral_quotient round_half_even_numeral
  round_half_even_0 round_half_even_1 strength_forward_def strength_inverse_def fdiv_def fmul_def
  to_double_numeral_quotient to_double_unit_quotient floor_numeral_quotient to_double_numeral to_double_0 to_double_1 round_quotient_def
  py_int_def py_round_def Let_def bitlen_1 bitlen_Bit0 bitlen_Bit1 bitlen_One


lemma round_half_up_quotient:
  assumes "0 \<le> a" "0 < b"
  shows "round_half_up (of_int a / of_int b) = (2 * a + b) div (2 * b)"
proof -
  have "(of_int a / of_int b :: rat) + 1 / 2 = of_int (2 * a + b) / of_int (2 * b)"
    using assms by (simp add: field_simps)
  then have "\<lfloor>(of_int a / of_int b :: rat) + 1 / 2\<rfloor> = (2 * a + b) div (2 * b)"
    by (simp only: floor_divide_of_int_eq)
  moreover have "0 \<le> (of_int a / of_int b :: rat)" using assms by simp
  ultimately show ?thesis by (simp add: round_half_up_def)
qed

lemma round_half_up_numeral_quotient:
  "round_half_up (numeral a / numeral b) = (2 * numeral a + numeral b) div (2 * numeral b)"
  using round_half_up_quotient [of "numeral a" "numeral b"] by simp

lemma round_half_up_of_int: "round_half_up (of_int n) = n"
proof -
  have "\<lfloor>(of_int n :: rat) + 1 / 2\<rfloor> = n" by (simp add: floor_unique)
  moreover have "\<lfloor>- (of_int n :: rat) + 1 / 2\<rfloor> = - n"
    using floor_unique [of "- n" "- (of_int n :: rat) + 1 / 2"] by simp
  ultimately show ?thesis by (simp add: round_half_up_def)
qed

lemma round_half_up_numeral: "round_half_up (numeral a) = numeral a"
  using round_half_up_of_int [of "numeral a"] by simp

lemma round_half_up_0: "round_half_up 0 = 0"
  using round_half_up_of_int [of 0] by simp

lemma round_half_up_1: "round_half_up 1 = 1"
  using round_half_up_of_int [of 1] by simp

lemmas decimals_eval = round_decimals_def round_half_up_numeral_quotient round_half_up_numeral
  round_half_up_0 round_half_up_1

section \<open>Properties of the strength conversion of ControlWidget\<close>

text \<open>
  Claim C1. The two values of the scenario convert as the claim says: the strength 0.37
  gives the spin value 37 and the spin value 82 gives the strength 0.82. But the forward
  conversion of the constructor is \<^verbatim>\<open>int(x * 100)\<close>, not \<^verbatim>\<open>round(x * 100)\<close>: for the
  strength that the spin value 29 gives, \<^verbatim>\<open>x * 100\<close> is just below 29, \<^verbatim>\<open>int\<close> gives 28 where
  \<^verbatim>\<open>round\<close> gives 29.
\<close>

theorem strength_forward_truncates:
  "strength_forward (to_double (37 / 100)) = 37
   \<and> strength_inverse 82 = to_double (82 / 100)
   \<and> strength_forward (strength_inverse 29) = 28
   \<and> py_round (fmul (strength_inverse 29) 100) = 29"
  by (simp add: float_eval)

text \<open>
  With the property setter of spec 4.1, the spin box set to 29 therefore settles at 28 and
  the layer's strength at 0.28.
\<close>

lemma strength_spin_29_settles_at_28:
  "strength_spin_setValue 10 29 example_controls
   = Some \<lparr> cc_control = \<lparr> layer_strength = to_double (28 / 100), layer_end = 1 \<rparr>,
            cc_strength_spin = \<lparr> sp_minimum = 0, sp_maximum = 100, sp_value = 28 \<rparr>,
            cc_end_spin = \<lparr> dsp_minimum = 0, dsp_maximum = 1, dsp_decimals = 2, dsp_value = 1 \<rparr> \<rparr>"
  by (simp add: numeral_eq_Suc example_controls_def ControlWidget_controls_init_def
      QDoubleSpinBox_stored_def decimals_eval bound_def float_eval)

section \<open>The round trip of the strength conversion\<close>

lemma round_trip_rounded_0:
  "list_all (\<lambda>n. strength_inverse (py_round (fmul (strength_inverse n) 100)) = strength_inverse n)
     [0, 1, 2, 3, 4, 5, 6, 7, 8, 9, 10, 11, 12]"
  by (simp add: float_eval)

lemma round_trip_truncated_0:
  "filter (\<lambda>n. strength_inverse (strength_forward (strength_inverse n)) \<noteq> strength_inverse n)
     [0, 1, 2, 3, 4, 5, 6, 7, 8, 9, 10, 11, 12] = []"
  by (simp add: float_eval)

lemma round_trip_rounded_1:
  "list_all (\<lambda>n. strength_inverse (py_round (fmul (strength_inverse n) 100)) = strength_inverse n)
     [13, 14, 15, 16, 17, 18, 19, 20, 21, 22, 23, 24, 25]"
  by (simp add: float_eval)

lemma round_trip_truncated_1:
  "filter (\<lambda>n. strength_inverse (strength_forward (strength_inverse n)) \<noteq> strength_inverse n)
     [13, 14, 15, 16, 17, 18, 19, 20, 21, 22, 23, 24, 25] = []"
  by (simp add: float_eval)

lemma round_trip_rounded_2:
  "list_all (\<lambda>n. strength_inverse (py_round (fmul (strength_inverse n) 100)) = strength_inverse n)
     [26, 27, 28, 29, 30, 31, 32, 33, 34, 35, 36, 37, 38]"
  by (simp add: float_eval)

lemma round_trip_truncated_2:
  "filter (\<lambda>n. strength_inverse (strength_forward (strength_inverse n)) \<noteq> strength_inverse n)
     [26, 27, 28, 29, 30, 31, 32, 33, 34, 35, 36, 37, 38] = [29]"
  by (simp add: float_eval)

lemma round_trip_rounded_3:
  "list_all (\<lambda>n. strength_inverse (py_round (fmul (strength_inverse n) 100)) = strength_inverse n)
     [39, 40, 41, 42, 43, 44, 45, 46, 47, 48, 49, 50, 51]"
  by (simp add: float_eval)

lemma round_trip_truncated_3:
  "filter (\<lambda>n. strength_inverse (strength_forward (strength_inverse n)) \<noteq> strength_inverse n)
     [39, 40, 41, 42, 43, 44, 45, 46, 47, 48, 49, 50, 51] = []"
  by (simp add: float_eval)

lemma round_trip_rounded_4:
  "list_all (\<lambda>n. strength_inverse (py_round (fmul (strength_inverse n) 100)) = strength_inverse n)
     [52, 53, 54, 55, 56, 57, 58, 59, 60, 61, 62, 63, 64]"
  by (simp add: float_eval)

lemma round_trip_truncated_4:
  "filter (\<lambda>n. strength_inverse (strength_forward (strength_inverse n)) \<noteq> strength_inverse n)
     [52, 53, 54, 55, 56, 57, 58, 59, 60, 61, 62, 63, 64] = [57, 58]"
  by (simp add: float_eval)

lemma round_trip_rounded_5:
  "list_all (\<lambda>n. strength_inverse (py_round (fmul (strength_inverse n) 100)) = strength_inverse n)
     [65, 66, 67, 68, 69, 70, 71, 72, 73, 74, 75, 76, 77]"
  by (simp add: float_eval)

lemma round_trip_truncated_5:
  "filter (\<lambda>n. strength_inverse (strength_forward (strength_inverse n)) \<noteq> strength_inverse n)
     [65, 66, 67, 68, 69, 70, 71, 72, 73, 74, 75, 76, 77] = []"
  by (simp add: float_eval)

lemma round_trip_rounded_6:
  "list_all (\<lambda>n. strength_inverse (py_round (fmul (strength_inverse n) 100)) = strength_inverse n)
     [78, 79, 80, 81, 82, 83, 84, 85, 86, 87, 88, 89, 90]"
  by (simp add: float_eval)

lemma round_trip_truncated_6:
  "filter (\<lambda>n. strength_inverse (strength_forward (strength_inverse n)) \<noteq> strength_inverse n)
     [78, 79, 80, 81, 82, 83, 84, 85, 86, 87, 88, 89, 90] = []"
  by (simp add: float_eval)

lemma round_trip_rounded_7:
  "list_all (\<lambda>n. strength_inverse (py_round (fmul (strength_inverse n) 100)) = strength_inverse n)
     [91, 92, 93, 94, 95, 96, 97, 98, 99, 100]"
  by (simp add: float_eval)

lemma round_trip_truncated_7:
  "filter (\<lambda>n. strength_inverse (strength_forward (strength_inverse n)) \<noteq> strength_inverse n)
     [91, 92, 93, 94, 95, 96, 97, 98, 99, 100] = []"
  by (simp add: float_eval)

lemma whole_percentages:
  "[0..100::int]
     = [0, 1, 2, 3, 4, 5, 6, 7, 8, 9, 10, 11, 12]
       @ [13, 14, 15, 16, 17, 18, 19, 20, 21, 22, 23, 24, 25]
       @ [26, 27, 28, 29, 30, 31, 32, 33, 34, 35, 36, 37, 38]
       @ [39, 40, 41, 42, 43, 44, 45, 46, 47, 48, 49, 50, 51]
       @ [52, 53, 54, 55, 56, 57, 58, 59, 60, 61, 62, 63, 64]
       @ [65, 66, 67, 68, 69, 70, 71, 72, 73, 74, 75, 76, 77]
       @ [78, 79, 80, 81, 82, 83, 84, 85, 86, 87, 88, 89, 90]
       @ [91, 92, 93, 94, 95, 96, 97, 98, 99, 100]"
  by (simp add: upto_rec1)

lemmas round_trip_rounded = round_trip_rounded_0 round_trip_rounded_1 round_trip_rounded_2 round_trip_rounded_3 round_trip_rounded_4 round_trip_rounded_5 round_trip_rounded_6 round_trip_rounded_7

lemmas round_trip_truncated = round_trip_truncated_0 round_trip_truncated_1 round_trip_truncated_2 round_trip_truncated_3 round_trip_truncated_4 round_trip_truncated_5 round_trip_truncated_6 round_trip_truncated_7

text \<open>
  Claim C3. The round-trip law fails for the strength conversion of the constructor. The
  spin value 29 gives the strength 0.29, whose forward conversion \<^verbatim>\<open>int(x * 100)\<close> is 28, and
  28 gives the strength 0.28: \<^verbatim>\<open>inverse(forward(0.29))\<close> is 0.28. Of the strengths that the
  spin values 0 to 100 give, the law fails at those of 29, 57 and 58 and holds at the
  others. With \<^verbatim>\<open>round(x * 100)\<close> as the forward conversion, which is what the scenario of
  the spec writes, it holds at all of them.
\<close>

theorem strength_round_trip_fails:
  "strength_inverse (strength_forward (strength_inverse 29)) = strength_inverse 28
   \<and> strength_inverse 28 \<noteq> strength_inverse 29
   \<and> filter (\<lambda>n. strength_inverse (strength_forward (strength_inverse n)) \<noteq> strength_inverse n)
        [0..100] = [29, 57, 58]
   \<and> list_all (\<lambda>n. strength_inverse (py_round (fmul (strength_inverse n) 100)) = strength_inverse n)
        [0..100]"
proof -
  have a: "strength_inverse (strength_forward (strength_inverse 29)) = strength_inverse 28"
    by (simp add: float_eval)
  have b: "strength_inverse 28 \<noteq> strength_inverse 29"
    by (simp add: float_eval)
  have c: "filter (\<lambda>n. strength_inverse (strength_forward (strength_inverse n)) \<noteq> strength_inverse n)
        [0..100] = [29, 57, 58]"
    unfolding whole_percentages filter_append round_trip_truncated by simp
  have d: "list_all (\<lambda>n. strength_inverse (py_round (fmul (strength_inverse n) 100)) = strength_inverse n)
        [0..100]"
    by (simp only: whole_percentages list_all_append round_trip_rounded simp_thms)
  from a b c d show ?thesis by (intro conjI)
qed

section \<open>The spin boxes of a new ControlWidget\<close>

























end
